theory Spec2Isabelle
  imports Complex_Main "HOL-Library.Log_Nat"
begin

section \<open>Python floats: IEEE 754 binary64 with round-to-nearest, ties-to-even\<close>

text \<open>
  \<^verbatim>\<open>processor.py\<close> computes with Python \<^verbatim>\<open>float\<close>s.  A float is modelled by its
  value: a finite double is \<open>Finite s m e\<close>, standing for \<open>(-1)^s * m * 2^e\<close> with
  \<open>0 \<le> m < 2^53\<close> and \<open>-1074 \<le> e \<le> 971\<close>, in the one form the encoding has
  (\<open>2^52 \<le> m\<close> unless \<open>e = -1074\<close>); the sign is \<open>True\<close> for a negative number, so
  that \<open>Finite True 0 (-1074)\<close> is \<^verbatim>\<open>-0.0\<close>.
\<close>

datatype double = Finite bool int int | Infinity bool | NaN

text \<open>The doubles among the values of the datatype.\<close>

definition valid_double :: "double \<Rightarrow> bool" where
  "valid_double x = (case x of
     Finite s m e \<Rightarrow> 0 \<le> m \<and> m < 2 ^ 53 \<and> - 1074 \<le> e \<and> e \<le> 971 \<and> (e = - 1074 \<or> 2 ^ 52 \<le> m)
   | _ \<Rightarrow> True)"

text \<open>The quotient \<open>n / d\<close> of a natural number by a positive one, rounded to the nearest
  integer, a tie going to the even neighbour.\<close>

definition round_half_even :: "int \<Rightarrow> int \<Rightarrow> int" where
  "round_half_even n d =
     (let q = n div d; r = n mod d
      in if 2 * r < d then q
         else if d < 2 * r then q + 1
         else if even q then q else q + 1)"

text \<open>The double nearest to the rational \<open>n / d\<close> (\<open>0 \<le> n\<close>, \<open>0 < d\<close>), as mantissa and
  exponent; \<open>None\<close> when the rounded value is beyond the largest finite double.\<close>

definition nearest :: "int \<Rightarrow> int \<Rightarrow> (int \<times> int) option" where
  "nearest n d =
     (if n = 0 then Some (0, - 1074)
      else
        let e0 = bitlen n - bitlen d - 53;
            e1 = (if 2 ^ 53 * d * 2 ^ nat e0 \<le> n * 2 ^ nat (- e0) then e0 + 1 else e0);
            e = max e1 (- 1074);
            m = round_half_even (n * 2 ^ nat (- e)) (d * 2 ^ nat e)
        in if m = 2 ^ 53
           then (if 971 < e + 1 then None else Some (2 ^ 52, e + 1))
           else (if 971 < e then None else Some (m, e)))"

text \<open>An arithmetic result that overflows is an infinity of the result's sign.\<close>

definition pack :: "bool \<Rightarrow> (int \<times> int) option \<Rightarrow> double" where
  "pack s r = (case r of None \<Rightarrow> Infinity s | Some (m, e) \<Rightarrow> Finite s m e)"

text \<open>The double nearest to \<open>k * 2^x\<close>.\<close>

definition nearest_scaled :: "int \<Rightarrow> int \<Rightarrow> (int \<times> int) option" where
  "nearest_scaled k x = nearest (k * 2 ^ nat x) (2 ^ nat (- x))"

text \<open>A float literal of the source, such as \<^verbatim>\<open>0.001\<close> (\<open>float_lit 1 1000\<close>): the double
  nearest to the decimal it is written as.\<close>

definition float_lit :: "int \<Rightarrow> int \<Rightarrow> double" where
  "float_lit n d = pack False (nearest n d)"

fun fmul :: "double \<Rightarrow> double \<Rightarrow> double" where
  "fmul NaN y = NaN"
| "fmul x NaN = NaN"
| "fmul (Infinity s) (Infinity t) = Infinity (s \<noteq> t)"
| "fmul (Infinity s) (Finite t n f) = (if n = 0 then NaN else Infinity (s \<noteq> t))"
| "fmul (Finite s m e) (Infinity t) = (if m = 0 then NaN else Infinity (s \<noteq> t))"
| "fmul (Finite s m e) (Finite t n f) = pack (s \<noteq> t) (nearest_scaled (m * n) (e + f))"

definition signed :: "bool \<Rightarrow> int \<Rightarrow> int" where
  "signed s m = (if s then - m else m)"

fun fadd :: "double \<Rightarrow> double \<Rightarrow> double" where
  "fadd NaN y = NaN"
| "fadd x NaN = NaN"
| "fadd (Infinity s) (Infinity t) = (if s = t then Infinity s else NaN)"
| "fadd (Infinity s) (Finite t n f) = Infinity s"
| "fadd (Finite s m e) (Infinity t) = Infinity t"
| "fadd (Finite s m e) (Finite t n f) =
     (let g = min e f;
          v = signed s (m * 2 ^ nat (e - g)) + signed t (n * 2 ^ nat (f - g))
      in if v = 0 then Finite (s \<and> t) 0 (- 1074)
         else pack (v < 0) (nearest_scaled \<bar>v\<bar> g))"

fun fneg :: "double \<Rightarrow> double" where
  "fneg NaN = NaN"
| "fneg (Infinity s) = Infinity (\<not> s)"
| "fneg (Finite s m e) = Finite (\<not> s) m e"

definition fsub :: "double \<Rightarrow> double \<Rightarrow> double" where
  "fsub x y = fadd x (fneg y)"

section \<open>Python values and the builtins the source calls\<close>

text \<open>A message is a \<^verbatim>\<open>dict[str, Any]\<close>; its values are the values of a JSON-like record.\<close>

datatype pyval =
    PNone
  | PBool bool
  | PInt int
  | PFloat double
  | PStr string
  | PList "pyval list"
  | PDict "(string \<times> pyval) list"

type_synonym message = "string \<rightharpoonup> pyval"

text \<open>The exceptions that can leave the two functions.  \<open>ValueError\<close> carries the message
  text when the source gives one (\<^verbatim>\<open>raise ValueError("Invalid message format")\<close>); the texts
  that the builtins produce are not modelled (\<open>None\<close>).\<close>

datatype error = ValueError "string option" | TypeError | OverflowError

definition bind_err :: "error + 'a \<Rightarrow> ('a \<Rightarrow> error + 'b) \<Rightarrow> error + 'b" where
  "bind_err r f = (case r of Inl err \<Rightarrow> Inl err | Inr v \<Rightarrow> f v)"

text \<open>\<^verbatim>\<open>float(s)\<close> and \<^verbatim>\<open>int(s)\<close> on a string \<open>s\<close> parse it with the interpreter's own
  grammar (white space, signs, underscores, exponents, Unicode digits, \<^verbatim>\<open>"nan"\<close>, ...).  That
  grammar is no part of \<^verbatim>\<open>processor.py\<close>: the two parsers are parameters, \<open>None\<close> standing
  for the \<^verbatim>\<open>ValueError\<close> of a string that does not parse.\<close>

record builtins =
  float_of_str :: "string \<Rightarrow> double option"
  int_of_str :: "string \<Rightarrow> int option"

text \<open>An \<^verbatim>\<open>int\<close> becomes the nearest double, or \<^verbatim>\<open>OverflowError\<close> (int too large to
  convert to float).\<close>

definition int_to_float :: "int \<Rightarrow> error + double" where
  "int_to_float i =
     (case nearest \<bar>i\<bar> 1 of
        None \<Rightarrow> Inl OverflowError
      | Some (m, e) \<Rightarrow> Inr (Finite (i < 0) m e))"

text \<open>\<^verbatim>\<open>int(x)\<close> on a float drops the fraction (towards zero).\<close>

fun float_to_int :: "double \<Rightarrow> error + int" where
  "float_to_int NaN = Inl (ValueError None)"
| "float_to_int (Infinity s) = Inl OverflowError"
| "float_to_int (Finite s m e) = Inr (signed s ((m * 2 ^ nat e) div 2 ^ nat (- e)))"

fun py_float :: "builtins \<Rightarrow> pyval \<Rightarrow> error + double" where
  "py_float B (PFloat x) = Inr x"
| "py_float B (PInt i) = int_to_float i"
| "py_float B (PBool b) = int_to_float (if b then 1 else 0)"
| "py_float B (PStr s) =
     (case float_of_str B s of None \<Rightarrow> Inl (ValueError None) | Some x \<Rightarrow> Inr x)"
| "py_float B v = Inl TypeError"

fun py_int :: "builtins \<Rightarrow> pyval \<Rightarrow> error + int" where
  "py_int B (PInt i) = Inr i"
| "py_int B (PBool b) = Inr (if b then 1 else 0)"
| "py_int B (PFloat x) = float_to_int x"
| "py_int B (PStr s) =
     (case int_of_str B s of None \<Rightarrow> Inl (ValueError None) | Some i \<Rightarrow> Inr i)"
| "py_int B v = Inl TypeError"

text \<open>\<^verbatim>\<open>round(x, ndigits)\<close> on a float, \<open>0 \<le> ndigits\<close>: the exact value of \<open>x\<close> is rounded
  to \<open>ndigits\<close> decimal places, ties to even, and the decimal read back as a double, the sign
  kept; \<^verbatim>\<open>OverflowError\<close> if that is out of range.  Infinities and NaN are returned as they
  are, and so is every \<open>x\<close> when \<open>ndigits\<close> is above 323.\<close>

fun py_round :: "double \<Rightarrow> nat \<Rightarrow> error + double" where
  "py_round (Finite s m e) ndigits =
     (if 323 < ndigits then Inr (Finite s m e)
      else
        case nearest (round_half_even (m * 10 ^ ndigits * 2 ^ nat e) (2 ^ nat (- e))) (10 ^ ndigits) of
          None \<Rightarrow> Inl OverflowError
        | Some (m', e') \<Rightarrow> Inr (Finite s m' e'))"
| "py_round x ndigits = Inr x"

text \<open>Arithmetic between an \<^verbatim>\<open>int\<close> and a \<^verbatim>\<open>float\<close> converts the \<^verbatim>\<open>int\<close> first.\<close>

definition int_add_float :: "int \<Rightarrow> double \<Rightarrow> error + double" where
  "int_add_float i x = bind_err (int_to_float i) (\<lambda>y. Inr (fadd y x))"

definition int_sub_float :: "int \<Rightarrow> double \<Rightarrow> error + double" where
  "int_sub_float i x = bind_err (int_to_float i) (\<lambda>y. Inr (fsub y x))"

definition int_mul_float :: "int \<Rightarrow> double \<Rightarrow> error + double" where
  "int_mul_float i x = bind_err (int_to_float i) (\<lambda>y. Inr (fmul y x))"

definition float_mul_int :: "double \<Rightarrow> int \<Rightarrow> error + double" where
  "float_mul_int x i = bind_err (int_to_float i) (\<lambda>y. Inr (fmul x y))"

text \<open>\<^verbatim>\<open>message.get(key, default)\<close>.\<close>

definition get_default :: "message \<Rightarrow> string \<Rightarrow> pyval \<Rightarrow> pyval" where
  "get_default message k d = (case message k of None \<Rightarrow> d | Some v \<Rightarrow> v)"

section \<open>The processor\<close>

text \<open>The calls to the module's logger, in the order they are made.\<close>

datatype log_entry =
    Debug_validating
  | Error_invalid_schema message
  | Info_simulating pyval int pyval
  | Debug_result message

text \<open>\<^verbatim>\<open>validate_input_message\<close>.  The schema check \<^verbatim>\<open>validate_message_schema\<close> is imported
  from \<^verbatim>\<open>app.utils.validate_data\<close>; it is the first parameter.\<close>

definition validate_input_message ::
    "(message \<Rightarrow> bool) \<Rightarrow> message \<Rightarrow> log_entry list \<times> (error + message)" where
  "validate_input_message validate_message_schema message =
     (if \<not> validate_message_schema message
      then ([Debug_validating, Error_invalid_schema message],
            Inl (ValueError (Some ''Invalid message format'')))
      else ([Debug_validating], Inr message))"

text \<open>Lines 54 to 71 of \<^verbatim>\<open>simulate_execution\<close>: the dictionary \<^verbatim>\<open>result\<close>.\<close>

definition execution_result :: "pyval \<Rightarrow> double \<Rightarrow> int \<Rightarrow> error + message" where
  "execution_result action price quantity =
     (let slippage_pct = float_lit 1 1000;
          fee_per_share = float_lit 5 1000
      in
      bind_err (if action = PStr ''BUY'' then int_add_float 1 slippage_pct
                else int_sub_float 1 slippage_pct) (\<lambda>factor.
      let fill_price = fmul price factor in
      bind_err (int_mul_float quantity fee_per_share) (\<lambda>total_fee.
      bind_err (if action = PStr ''BUY''
                then bind_err (float_mul_int fill_price quantity) (\<lambda>a. Inr (fadd a total_fee))
                else bind_err (float_mul_int fill_price quantity) (\<lambda>a.
                       int_mul_float (- 1) (fsub a total_fee))) (\<lambda>execution_cost.
      bind_err (py_round fill_price 4) (\<lambda>rounded_fill_price.
      bind_err (py_round total_fee 4) (\<lambda>rounded_fee.
      bind_err (py_round execution_cost 4) (\<lambda>rounded_cost.
      Inr [''fill_price'' \<mapsto> PFloat rounded_fill_price,
           ''slippage_pct'' \<mapsto> PFloat slippage_pct,
           ''execution_fee'' \<mapsto> PFloat rounded_fee,
           ''execution_cost'' \<mapsto> PFloat rounded_cost,
           ''status'' \<mapsto> PStr (if action = PStr ''BUY'' \<or> action = PStr ''SELL''
                                 then ''executed'' else ''noop'')])))))))"

definition simulate_execution ::
    "builtins \<Rightarrow> message \<Rightarrow> log_entry list \<times> (error + message)" where
  "simulate_execution B message =
     (let symbol = get_default message ''symbol'' (PStr ''UNKNOWN'');
          action = get_default message ''action'' (PStr ''HOLD'')
      in
      case py_float B (get_default message ''price'' (PFloat (float_lit 100 1))) of
        Inl err \<Rightarrow> ([], Inl err)
      | Inr price \<Rightarrow>
          (case py_int B (get_default message ''quantity'' (PInt 0)) of
             Inl err \<Rightarrow> ([], Inl err)
           | Inr quantity \<Rightarrow>
               (case execution_result action price quantity of
                  Inl err \<Rightarrow> ([Info_simulating action quantity symbol], Inl err)
                | Inr result \<Rightarrow>
                    ([Info_simulating action quantity symbol, Debug_result result],
                     Inr (message ++ result)))))"

text \<open>The same function on dictionary objects.  In Python \<^verbatim>\<open>message\<close> is a reference to a
  dictionary that the caller still holds after the call.  The store lists the dictionaries; a
  reference is an index into it, and a new dictionary is appended.  Statement by statement:
  the four \<^verbatim>\<open>message.get\<close> read the dictionary behind \<^verbatim>\<open>message\<close>; \<^verbatim>\<open>result = {...}\<close> is
  a new dictionary; \<^verbatim>\<open>{**message, **result}\<close> reads both and is a new dictionary, whose
  reference is returned.  No statement assigns to a key of \<^verbatim>\<open>message\<close> or calls a method
  that changes it, and a conversion that raises does so before any dictionary is built.\<close>

type_synonym ref = nat
type_synonym store = "message list"

definition simulate_execution_store ::
    "builtins \<Rightarrow> store \<Rightarrow> ref \<Rightarrow> store \<times> log_entry list \<times> (error + ref)" where
  "simulate_execution_store B store message =
     (let symbol = get_default (store ! message) ''symbol'' (PStr ''UNKNOWN'');
          action = get_default (store ! message) ''action'' (PStr ''HOLD'')
      in
      case py_float B (get_default (store ! message) ''price'' (PFloat (float_lit 100 1))) of
        Inl err \<Rightarrow> (store, [], Inl err)
      | Inr price \<Rightarrow>
          (case py_int B (get_default (store ! message) ''quantity'' (PInt 0)) of
             Inl err \<Rightarrow> (store, [], Inl err)
           | Inr quantity \<Rightarrow>
               (case execution_result action price quantity of
                  Inl err \<Rightarrow> (store, [Info_simulating action quantity symbol], Inl err)
                | Inr result \<Rightarrow>
                    (store @ [result, store ! message ++ result],
                     [Info_simulating action quantity symbol, Debug_result result],
                     Inr (length store + 1)))))"

section \<open>Vocabulary of the properties\<close>

text \<open>The five keys of \<^verbatim>\<open>result\<close>, and the dictionary itself with its three rounded numbers
  and its status.\<close>

definition derived_fields :: "string set" where
  "derived_fields =
     {''fill_price'', ''slippage_pct'', ''execution_fee'', ''execution_cost'', ''status''}"

definition result_dict :: "double \<Rightarrow> double \<Rightarrow> double \<Rightarrow> string \<Rightarrow> message" where
  "result_dict fill_price execution_fee execution_cost status =
     [''fill_price'' \<mapsto> PFloat fill_price,
      ''slippage_pct'' \<mapsto> PFloat (float_lit 1 1000),
      ''execution_fee'' \<mapsto> PFloat execution_fee,
      ''execution_cost'' \<mapsto> PFloat execution_cost,
      ''status'' \<mapsto> PStr status]"

text \<open>The orders of the specification's scenarios 1 to 3:
  \<^verbatim>\<open>{"symbol": "AAPL", "action": action, "price": 100.0, "quantity": 10}\<close>.\<close>

definition aapl_order :: "string \<Rightarrow> message" where
  "aapl_order action =
     [''symbol'' \<mapsto> PStr ''AAPL'', ''action'' \<mapsto> PStr action,
      ''price'' \<mapsto> PFloat (float_lit 100 1), ''quantity'' \<mapsto> PInt 10]"

text \<open>Modelled from the spec: \<^verbatim>\<open>validate_message_schema\<close> of \<^verbatim>\<open>app.utils.validate_data\<close>, which
  is not among the sources.  Section 3 of the specification asks for the keys \<^verbatim>\<open>symbol\<close>
  (text), \<^verbatim>\<open>action\<close> (text), \<^verbatim>\<open>price\<close> (numeric) and \<^verbatim>\<open>quantity\<close> (integer).  The
  theorems below hold for every schema check; this one only supplies concrete inputs.\<close>

definition spec_message_schema :: "message \<Rightarrow> bool" where
  "spec_message_schema m =
     ((case m ''symbol'' of Some (PStr s) \<Rightarrow> True | _ \<Rightarrow> False) \<and>
      (case m ''action'' of Some (PStr a) \<Rightarrow> True | _ \<Rightarrow> False) \<and>
      (case m ''price'' of Some (PInt i) \<Rightarrow> True | Some (PFloat x) \<Rightarrow> True | _ \<Rightarrow> False) \<and>
      (case m ''quantity'' of Some (PInt i) \<Rightarrow> True | _ \<Rightarrow> False))"

text \<open>The real number a finite double stands for, and the integer part of a real.\<close>

definition double_value :: "bool \<Rightarrow> int \<Rightarrow> int \<Rightarrow> real" where
  "double_value s m e = real_of_int (signed s m) * 2 powr real_of_int e"

definition trunc_toward_zero :: "real \<Rightarrow> int" where
  "trunc_toward_zero x = (if x < 0 then - \<lfloor>- x\<rfloor> else \<lfloor>x\<rfloor>)"

section \<open>Evaluation of the arithmetic\<close>

lemma bind_err_simps [simp]:
  "bind_err (Inl err) f = Inl err"
  "bind_err (Inr v) f = f v"
  by (simp_all add: bind_err_def)

lemma bind_err_eq_Inr: "bind_err r f = Inr y \<longleftrightarrow> (\<exists>v. r = Inr v \<and> f v = Inr y)"
  by (cases r) simp_all

text \<open>In doubles, \<^verbatim>\<open>1 + 0.001\<close> is the literal \<^verbatim>\<open>1.001\<close> and \<^verbatim>\<open>1 - 0.001\<close> is \<^verbatim>\<open>0.999\<close>.\<close>

lemma one_plus_slippage: "int_add_float 1 (float_lit 1 1000) = Inr (float_lit 1001 1000)"
  by code_simp

lemma one_minus_slippage: "int_sub_float 1 (float_lit 1 1000) = Inr (float_lit 999 1000)"
  by code_simp

lemma eval_orders:
  "int_mul_float 10 (float_lit 5 1000) = Inr (float_lit 5 100)"
  "float_mul_int (fmul (float_lit 100 1) (float_lit 1001 1000)) 10 = Inr (float_lit 1001 1)"
  "float_mul_int (fmul (float_lit 100 1) (float_lit 999 1000)) 10 = Inr (float_lit 999 1)"
  "int_mul_float (- 1) (fsub (float_lit 999 1) (float_lit 5 100)) = Inr (fneg (float_lit 99895 100))"
  "py_round (fmul (float_lit 100 1) (float_lit 1001 1000)) 4 = Inr (float_lit 1001 10)"
  "py_round (fmul (float_lit 100 1) (float_lit 999 1000)) 4 = Inr (float_lit 999 10)"
  "py_round (float_lit 5 100) 4 = Inr (float_lit 5 100)"
  "py_round (fadd (float_lit 1001 1) (float_lit 5 100)) 4 = Inr (float_lit 100105 100)"
  "py_round (fneg (float_lit 99895 100)) 4 = Inr (fneg (float_lit 99895 100))"
  by code_simp+

lemma eval_defaults:
  "int_mul_float 0 (float_lit 5 1000) = Inr (float_lit 0 1)"
  "float_mul_int (fmul (float_lit 100 1) (float_lit 999 1000)) 0 = Inr (float_lit 0 1)"
  "int_mul_float (- 1) (fsub (float_lit 0 1) (float_lit 0 1)) = Inr (fneg (float_lit 0 1))"
  "py_round (float_lit 0 1) 4 = Inr (float_lit 0 1)"
  "py_round (fneg (float_lit 0 1)) 4 = Inr (fneg (float_lit 0 1))"
  by code_simp+

lemma minus_zero_not_minus_999: "fneg (float_lit 0 1) \<noteq> fneg (float_lit 999 10)"
  by code_simp

section \<open>What \<^verbatim>\<open>simulate_execution\<close> returns\<close>

lemma simulate_execution_Inr:
  "snd (simulate_execution B message) = Inr out \<longleftrightarrow>
     (\<exists>price quantity result.
        py_float B (get_default message ''price'' (PFloat (float_lit 100 1))) = Inr price \<and>
        py_int B (get_default message ''quantity'' (PInt 0)) = Inr quantity \<and>
        execution_result (get_default message ''action'' (PStr ''HOLD'')) price quantity
          = Inr result \<and>
        out = message ++ result)"
  by (auto simp: simulate_execution_def Let_def split: sum.splits)

lemma execution_result_Inr:
  "execution_result action price quantity = Inr result \<longleftrightarrow>
     (\<exists>total_fee gross execution_cost r1 r2 r3.
        int_mul_float quantity (float_lit 5 1000) = Inr total_fee \<and>
        float_mul_int (fmul price (if action = PStr ''BUY'' then float_lit 1001 1000
                                   else float_lit 999 1000)) quantity = Inr gross \<and>
        (if action = PStr ''BUY'' then execution_cost = fadd gross total_fee
         else int_mul_float (- 1) (fsub gross total_fee) = Inr execution_cost) \<and>
        py_round (fmul price (if action = PStr ''BUY'' then float_lit 1001 1000
                              else float_lit 999 1000)) 4 = Inr r1 \<and>
        py_round total_fee 4 = Inr r2 \<and>
        py_round execution_cost 4 = Inr r3 \<and>
        result = result_dict r1 r2 r3
                   (if action = PStr ''BUY'' \<or> action = PStr ''SELL''
                    then ''executed'' else ''noop''))"
  by (auto simp: execution_result_def Let_def bind_err_eq_Inr one_plus_slippage
        one_minus_slippage result_dict_def)

lemma dom_result_dict: "dom (result_dict a b c d) = derived_fields"
  by (auto simp: result_dict_def derived_fields_def)

lemma execution_result_buy:
  "execution_result (PStr ''BUY'') (float_lit 100 1) 10 =
     Inr (result_dict (float_lit 1001 10) (float_lit 5 100) (float_lit 100105 100) ''executed'')"
  by (simp add: execution_result_Inr eval_orders)

lemma execution_result_sell:
  "execution_result (PStr ''SELL'') (float_lit 100 1) 10 =
     Inr (result_dict (float_lit 999 10) (float_lit 5 100) (fneg (float_lit 99895 100))
            ''executed'')"
  by (simp add: execution_result_Inr eval_orders)

lemma execution_result_hold:
  "execution_result (PStr ''HOLD'') (float_lit 100 1) 10 =
     Inr (result_dict (float_lit 999 10) (float_lit 5 100) (fneg (float_lit 99895 100))
            ''noop'')"
  by (simp add: execution_result_Inr eval_orders)

lemma execution_result_defaults:
  "execution_result (PStr ''HOLD'') (float_lit 100 1) 0 =
     Inr (result_dict (float_lit 999 10) (float_lit 0 1) (fneg (float_lit 0 1)) ''noop'')"
  by (simp add: execution_result_Inr eval_orders eval_defaults)

lemma simulate_execution_buy:
  "snd (simulate_execution B (aapl_order ''BUY'')) =
     Inr (aapl_order ''BUY'' ++
          result_dict (float_lit 1001 10) (float_lit 5 100) (float_lit 100105 100) ''executed'')"
  by (simp add: simulate_execution_def get_default_def aapl_order_def execution_result_buy
        Let_def)

lemma simulate_execution_sell:
  "snd (simulate_execution B (aapl_order ''SELL'')) =
     Inr (aapl_order ''SELL'' ++
          result_dict (float_lit 999 10) (float_lit 5 100) (fneg (float_lit 99895 100))
            ''executed'')"
  by (simp add: simulate_execution_def get_default_def aapl_order_def execution_result_sell
        Let_def)

lemma simulate_execution_hold:
  "snd (simulate_execution B (aapl_order ''HOLD'')) =
     Inr (aapl_order ''HOLD'' ++
          result_dict (float_lit 999 10) (float_lit 5 100) (fneg (float_lit 99895 100))
            ''noop'')"
  by (simp add: simulate_execution_def get_default_def aapl_order_def execution_result_hold
        Let_def)

lemma simulate_execution_empty:
  "simulate_execution B Map.empty =
     ([Info_simulating (PStr ''HOLD'') 0 (PStr ''UNKNOWN''),
       Debug_result
         (result_dict (float_lit 999 10) (float_lit 0 1) (fneg (float_lit 0 1)) ''noop'')],
      Inr (result_dict (float_lit 999 10) (float_lit 0 1) (fneg (float_lit 0 1)) ''noop''))"
  by (simp add: simulate_execution_def get_default_def execution_result_defaults)

text \<open>The function on dictionary objects logs and returns what the function on dictionary
  values does, and whatever the outcome it leaves every dictionary of the store as it was.\<close>

lemma simulate_execution_store_Inr:
  "simulate_execution_store B store message = (store', logs, Inr out) \<longleftrightarrow>
     (\<exists>price quantity result.
        py_float B (get_default (store ! message) ''price'' (PFloat (float_lit 100 1)))
          = Inr price \<and>
        py_int B (get_default (store ! message) ''quantity'' (PInt 0)) = Inr quantity \<and>
        execution_result (get_default (store ! message) ''action'' (PStr ''HOLD''))
          price quantity = Inr result \<and>
        store' = store @ [result, store ! message ++ result] \<and>
        logs = [Info_simulating (get_default (store ! message) ''action'' (PStr ''HOLD''))
                 quantity (get_default (store ! message) ''symbol'' (PStr ''UNKNOWN'')),
               Debug_result result] \<and>
        out = length store + 1)"
  by (auto simp: simulate_execution_store_def Let_def split: sum.splits)

lemma simulate_execution_store_pure:
  "fst (snd (simulate_execution_store B store message))
     = fst (simulate_execution B (store ! message))"
  "snd (snd (simulate_execution_store B store message))
     = (case snd (simulate_execution B (store ! message)) of
          Inl err \<Rightarrow> Inl err | Inr out \<Rightarrow> Inr (length store + 1))"
  by (auto simp: simulate_execution_store_def simulate_execution_def Let_def split: sum.splits)

lemma simulate_execution_store_frame:
  assumes "simulate_execution_store B store message = (store', logs, res)"
      and "r < length store"
  shows "store' ! r = store ! r"
  using assms
  by (auto simp: simulate_execution_store_def Let_def nth_append split: sum.splits)

lemma simulate_execution_store_pending:
  "simulate_execution_store B [(aapl_order ''BUY'')(''status'' \<mapsto> PStr ''pending'')] 0 =
     ([(aapl_order ''BUY'')(''status'' \<mapsto> PStr ''pending''),
       result_dict (float_lit 1001 10) (float_lit 5 100) (float_lit 100105 100) ''executed'',
       (aapl_order ''BUY'')(''status'' \<mapsto> PStr ''pending'') ++
       result_dict (float_lit 1001 10) (float_lit 5 100) (float_lit 100105 100) ''executed''],
      [Info_simulating (PStr ''BUY'') 10 (PStr ''AAPL''),
       Debug_result
         (result_dict (float_lit 1001 10) (float_lit 5 100) (float_lit 100105 100)
            ''executed'')],
      Inr 2)"
  by (simp add: simulate_execution_store_def get_default_def aapl_order_def
        execution_result_buy Let_def)

section \<open>Doubles stay doubles, and rounding to four places cannot overflow\<close>

text \<open>The rounded quotient lies between the integers that bound the quotient.\<close>

lemma round_half_even_cases:
  "round_half_even n d = n div d \<or> round_half_even n d = n div d + 1"
  by (simp add: round_half_even_def Let_def)

lemma round_half_even_exact:
  assumes "n mod d = 0" and "0 < d"
  shows "round_half_even n d = n div d"
  using assms by (simp add: round_half_even_def Let_def)

lemma round_half_even_lower:
  assumes "0 < d" and "k * d \<le> n"
  shows "k \<le> round_half_even n d"
proof -
  from assms have "k \<le> n div d"
    using zdiv_mono1 by fastforce
  with round_half_even_cases [of n d] show ?thesis by linarith
qed

lemma round_half_even_upper:
  assumes "0 < d" and "n \<le> k * d"
  shows "round_half_even n d \<le> k"
proof (cases "n mod d = 0")
  case True
  then have "n = (n div d) * d" by (simp add: mod_eq_0_iff_dvd)
  with assms have "(n div d) * d \<le> k * d" by simp
  with assms(1) have "n div d \<le> k" by simp
  with True assms(1) show ?thesis by (simp add: round_half_even_exact)
next
  case False
  with assms(1) have "0 < n mod d" by (simp add: order_less_le)
  moreover have "n = (n div d) * d + n mod d" by simp
  ultimately have "(n div d) * d < k * d" using assms(2) by linarith
  with assms(1) have "n div d < k" by simp
  with round_half_even_cases [of n d] show ?thesis by linarith
qed

lemma round_half_even_near:
  assumes "0 < d"
  shows "(2 * round_half_even n d - 1) * d \<le> 2 * n"
proof -
  let ?q = "n div d" and ?r = "n mod d"
  have n: "n = ?q * d + ?r" by simp
  have r: "0 \<le> ?r" using assms by simp
  show ?thesis
  proof (cases "2 * ?r < d")
    case True
    then have eq: "round_half_even n d = ?q" by (simp add: round_half_even_def Let_def)
    have "(2 * ?q - 1) * d = 2 * (?q * d) - d"
      by (simp add: algebra_simps)
    moreover have "?q * d \<le> n"
      using n r by linarith
    ultimately have "(2 * ?q - 1) * d \<le> 2 * n" using assms by linarith
    then show ?thesis unfolding eq .
  next
    case False
    then have "round_half_even n d \<le> ?q + 1"
      using round_half_even_cases [of n d] by linarith
    then have "(2 * round_half_even n d - 1) * d \<le> (2 * (?q + 1) - 1) * d"
      using assms by (simp add: mult_right_mono)
    also have "\<dots> = 2 * (?q * d) + d" by (simp add: algebra_simps)
    also have "\<dots> \<le> 2 * (?q * d) + 2 * ?r" using False by simp
    also have "\<dots> = 2 * (?q * d + ?r)" by (simp only: distrib_left)
    also have "\<dots> = 2 * n" by (simp only: div_mult_mod_eq)
    finally show ?thesis .
  qed
qed

lemma round_half_even_near_upper:
  assumes "0 < d"
  shows "2 * n \<le> (2 * round_half_even n d + 1) * d"
proof -
  let ?q = "n div d" and ?r = "n mod d"
  have n: "2 * n = 2 * (?q * d) + 2 * ?r"
    by (simp only: distrib_left [symmetric] div_mult_mod_eq)
  have r: "?r < d" using assms by simp
  show ?thesis
  proof (cases "round_half_even n d = ?q")
    case True
    then have "2 * ?r \<le> d"
      by (simp add: round_half_even_def Let_def split: if_splits)
    moreover have "(2 * ?q + 1) * d = 2 * (?q * d) + d"
      by (simp add: algebra_simps)
    ultimately have "2 * n \<le> (2 * ?q + 1) * d" using n by linarith
    then show ?thesis unfolding True .
  next
    case False
    with round_half_even_cases [of n d] have eq: "round_half_even n d = ?q + 1" by simp
    have "(2 * (?q + 1) + 1) * d = 2 * (?q * d) + 3 * d"
      by (simp add: algebra_simps)
    then have "2 * n \<le> (2 * (?q + 1) + 1) * d" using n r assms by linarith
    then show ?thesis unfolding eq .
  qed
qed

lemma scaled_quotient:
  assumes "0 < d"
  shows "real_of_int (n * 2 ^ nat (- e)) / real_of_int (d * 2 ^ nat e)
           = (real_of_int n / real_of_int d) * 2 powr (- real_of_int e)"
proof (cases "0 \<le> e")
  case True
  then have "2 powr (- real_of_int e) = 1 / 2 ^ nat e"
    by (simp add: powr_minus_divide powr_realpow [symmetric])
  with True show ?thesis by simp
next
  case False
  then have "2 powr (- real_of_int e) = 2 ^ nat (- e)"
    by (simp add: powr_realpow [symmetric])
  with False show ?thesis by simp
qed

lemma bitlen_powr_bounds:
  assumes "0 < x"
  shows "2 powr (real_of_int (bitlen x) - 1) \<le> real_of_int x"
    and "real_of_int x < 2 powr real_of_int (bitlen x)"
proof -
  from assms have b: "1 \<le> bitlen x" by (auto simp: bitlen_alt_def)
  from bitlen_bounds [OF assms]
  have lo: "2 ^ nat (bitlen x - 1) \<le> x" and hi: "x < 2 ^ nat (bitlen x)" by auto
  have "2 powr (real_of_int (bitlen x) - 1) = real_of_int (2 ^ nat (bitlen x - 1))"
    using b by (simp add: powr_realpow [symmetric])
  also have "\<dots> \<le> real_of_int x" using lo by (simp only: of_int_le_iff)
  finally show "2 powr (real_of_int (bitlen x) - 1) \<le> real_of_int x" .
  have "real_of_int x < real_of_int (2 ^ nat (bitlen x))" using hi by (simp only: of_int_less_iff)
  also have "\<dots> = 2 powr real_of_int (bitlen x)"
    using b by (simp add: powr_realpow [symmetric])
  finally show "real_of_int x < 2 powr real_of_int (bitlen x)" .
qed

text \<open>The exponent \<^const>\<open>nearest\<close> picks puts the scaled quotient between \<open>2^52\<close> and
  \<open>2^53\<close>.\<close>

lemma int_ratio_le:
  assumes "0 < b"
  shows "k * b \<le> a \<longleftrightarrow> real_of_int k \<le> real_of_int a / real_of_int b"
proof -
  have "real_of_int k \<le> real_of_int a / real_of_int b
          \<longleftrightarrow> real_of_int k * real_of_int b \<le> real_of_int a"
    using assms by (simp add: pos_le_divide_eq)
  also have "\<dots> \<longleftrightarrow> real_of_int (k * b) \<le> real_of_int a" by simp
  also have "\<dots> \<longleftrightarrow> k * b \<le> a" by (rule of_int_le_iff)
  finally show ?thesis ..
qed

lemma int_ratio_ge:
  assumes "0 < b"
  shows "a \<le> k * b \<longleftrightarrow> real_of_int a / real_of_int b \<le> real_of_int k"
proof -
  have "real_of_int a / real_of_int b \<le> real_of_int k
          \<longleftrightarrow> real_of_int a \<le> real_of_int k * real_of_int b"
    using assms by (simp add: pos_divide_le_eq)
  also have "\<dots> \<longleftrightarrow> real_of_int a \<le> real_of_int (k * b)" by simp
  also have "\<dots> \<longleftrightarrow> a \<le> k * b" by (rule of_int_le_iff)
  finally show ?thesis ..
qed

lemma nearest_exponent:
  assumes "0 < n" and "0 < d"
  defines "R \<equiv> real_of_int n / real_of_int d"
  defines "e0 \<equiv> bitlen n - bitlen d - 53"
  defines "e1 \<equiv> (if 2 ^ 53 * d * 2 ^ nat e0 \<le> n * 2 ^ nat (- e0) then e0 + 1 else e0)"
  shows "2 powr (52 + real_of_int e1) \<le> R" and "R < 2 powr (53 + real_of_int e1)"
proof -
  have dpos: "0 < real_of_int d" using assms by simp
  have n_lo: "2 powr (real_of_int (bitlen n) - 1) \<le> real_of_int n"
    and n_hi: "real_of_int n < 2 powr real_of_int (bitlen n)"
    using bitlen_powr_bounds [OF assms(1)] by auto
  have d_lo: "2 powr (real_of_int (bitlen d) - 1) \<le> real_of_int d"
    and d_hi: "real_of_int d < 2 powr real_of_int (bitlen d)"
    using bitlen_powr_bounds [OF assms(2)] by auto
  have lo: "2 powr (52 + real_of_int e0) \<le> R"
  proof -
    have "2 powr (52 + real_of_int e0) * real_of_int d
            \<le> 2 powr (52 + real_of_int e0) * 2 powr real_of_int (bitlen d)"
      using d_hi by (simp add: mult_left_mono)
    also have "\<dots> = 2 powr (real_of_int (bitlen n) - 1)"
      by (simp add: e0_def powr_add [symmetric])
    also have "\<dots> \<le> real_of_int n" by (rule n_lo)
    finally show ?thesis using dpos by (simp add: R_def pos_le_divide_eq)
  qed
  have hi: "R < 2 powr (54 + real_of_int e0)"
  proof -
    have "real_of_int n < 2 powr real_of_int (bitlen n)" by (rule n_hi)
    also have "\<dots> = 2 powr (54 + real_of_int e0) * 2 powr (real_of_int (bitlen d) - 1)"
      by (simp add: e0_def powr_add [symmetric])
    also have "\<dots> \<le> 2 powr (54 + real_of_int e0) * real_of_int d"
      using d_lo by (simp add: mult_left_mono)
    finally show ?thesis using dpos by (simp add: R_def pos_divide_less_eq)
  qed
  have cond: "(2 ^ 53 * d * 2 ^ nat e0 \<le> n * 2 ^ nat (- e0))
                \<longleftrightarrow> 2 powr (53 + real_of_int e0) \<le> R"
  proof -
    let ?a = "n * 2 ^ nat (- e0)" and ?b = "d * 2 ^ nat e0"
    have bpos: "0 < ?b" using assms(2) by simp
    have "(2 ^ 53 * d * 2 ^ nat e0 \<le> n * 2 ^ nat (- e0)) \<longleftrightarrow> 2 ^ 53 * ?b \<le> ?a"
      by (simp only: mult.assoc)
    also have "\<dots> \<longleftrightarrow> real_of_int (2 ^ 53) \<le> real_of_int ?a / real_of_int ?b"
      by (rule int_ratio_le [OF bpos])
    also have "\<dots> \<longleftrightarrow> 2 ^ 53 \<le> real_of_int ?a / real_of_int ?b"
      by simp
    also have "\<dots> \<longleftrightarrow> 2 ^ 53 \<le> R * 2 powr (- real_of_int e0)"
      unfolding scaled_quotient [OF assms(2)] R_def ..
    also have "\<dots> \<longleftrightarrow> 2 ^ 53 * 2 powr real_of_int e0 \<le> R"
      by (simp add: powr_minus field_simps)
    also have "2 ^ 53 * 2 powr real_of_int e0 = 2 powr (53 + real_of_int e0)"
      by (simp add: powr_add)
    finally show ?thesis .
  qed
  show "2 powr (52 + real_of_int e1) \<le> R"
  proof (cases "2 ^ 53 * d * 2 ^ nat e0 \<le> n * 2 ^ nat (- e0)")
    case True
    then have "e1 = e0 + 1" by (simp add: e1_def)
    with True cond show ?thesis by (simp add: add.commute add.left_commute)
  next
    case False
    then have "e1 = e0" by (simp add: e1_def)
    with lo show ?thesis by simp
  qed
  show "R < 2 powr (53 + real_of_int e1)"
  proof (cases "2 ^ 53 * d * 2 ^ nat e0 \<le> n * 2 ^ nat (- e0)")
    case True
    then have "e1 = e0 + 1" by (simp add: e1_def)
    with hi show ?thesis by (simp add: add.commute add.left_commute)
  next
    case False
    then have "e1 = e0" by (simp add: e1_def)
    with False cond show ?thesis by simp
  qed
qed

lemma nearest_mantissa:
  assumes "0 < n" and "0 < d"
  obtains m e where
    "nearest n d =
           (if m = 2 ^ 53
            then (if 971 < e + 1 then None else Some (2 ^ 52, e + 1))
            else (if 971 < e then None else Some (m, e)))"
    and "- 1074 \<le> e" and "0 \<le> m" and "m \<le> 2 ^ 53"
    and "e = - 1074 \<or> 2 ^ 52 \<le> m"
    and "e = - 1074 \<or> 2 powr (52 + real_of_int e) \<le> real_of_int n / real_of_int d"
    and "(2 * real_of_int m - 1) * 2 powr real_of_int e \<le> 2 * (real_of_int n / real_of_int d)"
    and "2 * (real_of_int n / real_of_int d) \<le> (2 * real_of_int m + 1) * 2 powr real_of_int e"
proof -
  define R where "R = real_of_int n / real_of_int d"
  define e0 where "e0 = bitlen n - bitlen d - 53"
  define e1 where
    "e1 = (if 2 ^ 53 * d * 2 ^ nat e0 \<le> n * 2 ^ nat (- e0) then e0 + 1 else e0)"
  define e where "e = max e1 (- 1074)"
  define m where "m = round_half_even (n * 2 ^ nat (- e)) (d * 2 ^ nat e)"
  let ?a = "n * 2 ^ nat (- e)" and ?b = "d * 2 ^ nat e"
  have bpos: "0 < ?b" using assms(2) by simp
  have apos: "0 \<le> ?a" using assms(1) by simp
  have Rpos: "0 < R" using assms(1,2) by (simp add: R_def)
  have ratio: "real_of_int ?a / real_of_int ?b = R * 2 powr (- real_of_int e)"
    unfolding R_def by (rule scaled_quotient [OF assms(2)])
  have lo: "2 powr (52 + real_of_int e1) \<le> R" and hi: "R < 2 powr (53 + real_of_int e1)"
    using nearest_exponent [OF assms(1,2)] unfolding R_def e1_def e0_def by auto
  have f1: "nearest n d =
           (if m = 2 ^ 53
            then (if 971 < e + 1 then None else Some (2 ^ 52, e + 1))
            else (if 971 < e then None else Some (m, e)))"
    using assms(1) unfolding nearest_def m_def e_def e1_def e0_def Let_def by simp
  have f2: "- 1074 \<le> e" by (simp add: e_def)
  have f3: "0 \<le> m"
    unfolding m_def using bpos apos by (intro round_half_even_lower) simp_all
  have e_ge: "e1 \<le> e" by (simp add: e_def)
  have "R * 2 powr (- real_of_int e) \<le> R * 2 powr (- real_of_int e1)"
    using Rpos e_ge by (simp add: mult_left_mono)
  also have "\<dots> \<le> 2 powr (53 + real_of_int e1) * 2 powr (- real_of_int e1)"
    using hi by (simp add: mult_right_mono)
  also have "\<dots> = 2 ^ 53"
    by (simp add: powr_add [symmetric])
  finally have "real_of_int ?a / real_of_int ?b \<le> real_of_int (2 ^ 53)"
    unfolding ratio by simp
  then have "?a \<le> 2 ^ 53 * ?b"
    by (simp only: int_ratio_ge [OF bpos])
  then have f4: "m \<le> 2 ^ 53"
    unfolding m_def using bpos by (intro round_half_even_upper)
  have f6: "e = - 1074 \<or> 2 powr (52 + real_of_int e) \<le> R"
    using lo by (auto simp: e_def max_def)
  have f5: "e = - 1074 \<or> 2 ^ 52 \<le> m"
  proof (cases "e = - 1074")
    case True
    then show ?thesis by simp
  next
    case False
    with f6 have lo': "2 powr (52 + real_of_int e) \<le> R" by simp
    have "real_of_int (2 ^ 52) = 2 powr (52 + real_of_int e) * 2 powr (- real_of_int e)"
      by (simp add: powr_add [symmetric])
    also have "\<dots> \<le> R * 2 powr (- real_of_int e)"
      using lo' by (simp add: mult_right_mono)
    also have "\<dots> = real_of_int ?a / real_of_int ?b"
      by (simp only: ratio)
    finally have "2 ^ 52 * ?b \<le> ?a"
      by (simp only: int_ratio_le [OF bpos])
    then have "2 ^ 52 \<le> m"
      unfolding m_def using bpos by (intro round_half_even_lower)
    then show ?thesis by simp
  qed
  have "(2 * m - 1) * ?b \<le> 2 * ?a"
    unfolding m_def by (rule round_half_even_near [OF bpos])
  then have "real_of_int (2 * m - 1) \<le> real_of_int (2 * ?a) / real_of_int ?b"
    by (simp only: int_ratio_le [OF bpos])
  also have "\<dots> = 2 * (real_of_int ?a / real_of_int ?b)"
    by simp
  finally have "2 * real_of_int m - 1 \<le> 2 * (R * 2 powr (- real_of_int e))"
    unfolding ratio by simp
  then have "(2 * real_of_int m - 1) * 2 powr real_of_int e
               \<le> 2 * (R * 2 powr (- real_of_int e)) * 2 powr real_of_int e"
    by (simp add: mult_right_mono)
  also have "\<dots> = 2 * R"
    by (simp add: powr_minus)
  finally have f7: "(2 * real_of_int m - 1) * 2 powr real_of_int e \<le> 2 * R" .
  have "2 * ?a \<le> (2 * m + 1) * ?b"
    unfolding m_def by (rule round_half_even_near_upper [OF bpos])
  then have "real_of_int (2 * ?a) / real_of_int ?b \<le> real_of_int (2 * m + 1)"
    by (simp only: int_ratio_ge [OF bpos])
  moreover have "real_of_int (2 * ?a) / real_of_int ?b = 2 * (real_of_int ?a / real_of_int ?b)"
    by simp
  ultimately have "2 * (R * 2 powr (- real_of_int e)) \<le> 2 * real_of_int m + 1"
    unfolding ratio by simp
  then have "2 * (R * 2 powr (- real_of_int e)) * 2 powr real_of_int e
               \<le> (2 * real_of_int m + 1) * 2 powr real_of_int e"
    by (simp add: mult_right_mono)
  moreover have "2 * (R * 2 powr (- real_of_int e)) * 2 powr real_of_int e = 2 * R"
    by (simp add: powr_minus)
  ultimately have f8: "2 * R \<le> (2 * real_of_int m + 1) * 2 powr real_of_int e"
    by simp
  show thesis
    using f1 f2 f3 f4 f5 f6 f7 f8 unfolding R_def by (rule that)
qed

lemma nearest_valid:
  assumes "0 \<le> n" and "0 < d" and "nearest n d = Some (m, e)"
  shows "valid_double (Finite s m e)"
proof (cases "n = 0")
  case True
  with assms(3) show ?thesis by (simp add: nearest_def valid_double_def)
next
  case False
  with assms(1) have npos: "0 < n" by simp
  obtain m' e' where
    eq: "nearest n d =
           (if m' = 2 ^ 53
            then (if 971 < e' + 1 then None else Some (2 ^ 52, e' + 1))
            else (if 971 < e' then None else Some (m', e')))"
    and b: "- 1074 \<le> e'" "0 \<le> m'" "m' \<le> 2 ^ 53" "e' = - 1074 \<or> 2 ^ 52 \<le> m'"
    and "e' = - 1074 \<or> 2 powr (52 + real_of_int e') \<le> real_of_int n / real_of_int d"
    and "(2 * real_of_int m' - 1) * 2 powr real_of_int e' \<le> 2 * (real_of_int n / real_of_int d)"
    and "2 * (real_of_int n / real_of_int d) \<le> (2 * real_of_int m' + 1) * 2 powr real_of_int e'"
    by (rule nearest_mantissa [OF npos assms(2)])
  from assms(3) b show ?thesis
    unfolding eq valid_double_def
    by (auto split: if_splits)
qed

lemma nearest_overflow:
  assumes "0 \<le> n" and "0 < d" and "nearest n d = None"
  shows "(2 ^ 1024 - 2 ^ 970) * d \<le> n"
proof (cases "n = 0")
  case True
  with assms(3) show ?thesis by (simp add: nearest_def)
next
  case False
  with assms(1) have npos: "0 < n" by simp
  let ?R = "real_of_int n / real_of_int d"
  obtain m e where
    eq: "nearest n d =
           (if m = 2 ^ 53
            then (if 971 < e + 1 then None else Some (2 ^ 52, e + 1))
            else (if 971 < e then None else Some (m, e)))"
    and "- 1074 \<le> e" and "0 \<le> m" and "m \<le> 2 ^ 53"
    and "e = - 1074 \<or> 2 ^ 52 \<le> m"
    and lo: "e = - 1074 \<or> 2 powr (52 + real_of_int e) \<le> ?R"
    and near: "(2 * real_of_int m - 1) * 2 powr real_of_int e \<le> 2 * ?R"
    and "2 * ?R \<le> (2 * real_of_int m + 1) * 2 powr real_of_int e"
    by (rule nearest_mantissa [OF npos assms(2)])
  have "2 ^ 1024 - 2 ^ 970 \<le> ?R"
  proof (cases "m = 2 ^ 53")
    case True
    with assms(3) eq have e: "971 \<le> e" by (simp split: if_splits)
    define P where "P = (2::real) powr 971"
    have P_eq: "P = 2 ^ 971"
      unfolding P_def by (simp add: powr_realpow [symmetric])
    have P_le: "P \<le> 2 powr real_of_int e"
      unfolding P_def by (rule powr_mono) (use e in simp_all)
    have "(2 ^ 1024 - 2 ^ 970 :: real) = (2 * 2 ^ 53 - 1) * P / 2"
      unfolding P_eq by simp
    also have "\<dots> \<le> (2 * 2 ^ 53 - 1) * 2 powr real_of_int e / 2"
      using P_le by (simp add: mult_left_mono)
    also have "\<dots> \<le> 2 * ?R / 2"
      by (rule divide_right_mono) (use near True in simp_all)
    finally show ?thesis by simp
  next
    case False
    with assms(3) eq have e: "971 < e" by (simp split: if_splits)
    with lo have "2 powr (52 + real_of_int e) \<le> ?R" by auto
    moreover define Q where "Q = (2::real) powr 1024"
    have "Q = 2 ^ 1024"
      unfolding Q_def by (simp add: powr_realpow [symmetric])
    moreover have "Q \<le> 2 powr (52 + real_of_int e)"
      unfolding Q_def by (rule powr_mono) (use e in simp_all)
    ultimately show ?thesis by simp
  qed
  then have "real_of_int (2 ^ 1024 - 2 ^ 970) \<le> ?R" by simp
  then show ?thesis by (simp only: int_ratio_le [OF assms(2)])
qed

text \<open>What \<^const>\<open>nearest\<close> returns is within half a unit in the last place of the quotient.\<close>

lemma nearest_error:
  assumes "0 \<le> n" and "0 < d" and "nearest n d = Some (m, e)"
  shows "\<bar>real_of_int m * 2 powr real_of_int e - real_of_int n / real_of_int d\<bar>
           \<le> 2 powr real_of_int e / 2"
proof (cases "n = 0")
  case True
  with assms(3) show ?thesis by (simp add: nearest_def)
next
  case False
  with assms(1) have npos: "0 < n" by simp
  let ?R = "real_of_int n / real_of_int d"
  obtain m' e' where
    eq: "nearest n d =
           (if m' = 2 ^ 53
            then (if 971 < e' + 1 then None else Some (2 ^ 52, e' + 1))
            else (if 971 < e' then None else Some (m', e')))"
    and "- 1074 \<le> e'" and "0 \<le> m'" and "m' \<le> 2 ^ 53"
    and "e' = - 1074 \<or> 2 ^ 52 \<le> m'"
    and "e' = - 1074 \<or> 2 powr (52 + real_of_int e') \<le> ?R"
    and below: "(2 * real_of_int m' - 1) * 2 powr real_of_int e' \<le> 2 * ?R"
    and above: "2 * ?R \<le> (2 * real_of_int m' + 1) * 2 powr real_of_int e'"
    by (rule nearest_mantissa [OF npos assms(2)])
  define P where "P = 2 powr real_of_int e'"
  define M where "M = real_of_int m' * P"
  have "2 * M - P = (2 * real_of_int m' - 1) * 2 powr real_of_int e'"
    by (simp add: M_def P_def left_diff_distrib)
  also have "\<dots> \<le> 2 * ?R" by (rule below)
  finally have b: "2 * M - P \<le> 2 * ?R" .
  have "2 * ?R \<le> (2 * real_of_int m' + 1) * 2 powr real_of_int e'" by (rule above)
  also have "\<dots> = 2 * M + P"
    by (simp add: M_def P_def distrib_right)
  finally have a: "2 * ?R \<le> 2 * M + P" .
  from a b have "\<bar>M - ?R\<bar> \<le> P / 2" by linarith
  then have near: "\<bar>real_of_int m' * 2 powr real_of_int e' - ?R\<bar> \<le> 2 powr real_of_int e' / 2"
    unfolding M_def P_def .
  show ?thesis
  proof (cases "m' = 2 ^ 53")
    case True
    with assms(3) eq have m: "m = 2 ^ 52" and e: "e = e' + 1"
      by (simp_all split: if_splits)
    have val: "real_of_int m * 2 powr real_of_int e = real_of_int m' * 2 powr real_of_int e'"
      unfolding m e True by (simp add: powr_add)
    have le: "2 powr real_of_int e' \<le> 2 powr real_of_int e"
      unfolding e by simp
    from near le show ?thesis unfolding val by linarith
  next
    case False
    with assms(3) eq have "m = m'" and "e = e'"
      by (simp_all split: if_splits)
    with near show ?thesis by simp
  qed
qed

text \<open>Every operation of the model maps doubles to doubles.\<close>

lemma valid_pack_nearest:
  assumes "0 \<le> n" and "0 < d"
  shows "valid_double (pack s (nearest n d))"
proof (cases "nearest n d")
  case None
  then show ?thesis by (simp add: pack_def valid_double_def)
next
  case (Some p)
  obtain m e where p: "p = (m, e)" by (cases p)
  with Some nearest_valid [OF assms, of m e s] show ?thesis
    by (simp add: pack_def)
qed

lemma valid_pack_nearest_scaled:
  assumes "0 \<le> k"
  shows "valid_double (pack s (nearest_scaled k x))"
  unfolding nearest_scaled_def using assms by (intro valid_pack_nearest) simp_all

lemma valid_float_lit:
  assumes "0 \<le> n" and "0 < d"
  shows "valid_double (float_lit n d)"
  unfolding float_lit_def using assms by (rule valid_pack_nearest)

lemma valid_fmul:
  assumes "valid_double x" and "valid_double y"
  shows "valid_double (fmul x y)"
proof (cases x)
  case (Finite s m e)
  note x = this
  show ?thesis
  proof (cases y)
    case (Finite t n f)
    from assms x Finite have "0 \<le> m * n" by (simp add: valid_double_def)
    then show ?thesis using x Finite by (simp add: valid_pack_nearest_scaled)
  qed (simp_all add: x valid_double_def)
next
  case (Infinity s)
  then show ?thesis by (cases y) (simp_all add: valid_double_def)
next
  case NaN
  then show ?thesis by (simp add: valid_double_def)
qed

lemma valid_fadd:
  assumes "valid_double x" and "valid_double y"
  shows "valid_double (fadd x y)"
proof (cases x)
  case (Finite s m e)
  note x = this
  show ?thesis
  proof (cases y)
    case (Finite t n f)
    show ?thesis
      unfolding x Finite fadd.simps Let_def
      by (simp add: valid_pack_nearest_scaled) (simp add: valid_double_def)
  qed (simp_all add: x valid_double_def)
next
  case (Infinity s)
  then show ?thesis by (cases y) (simp_all add: valid_double_def)
next
  case NaN
  then show ?thesis by (simp add: valid_double_def)
qed

lemma valid_fneg:
  assumes "valid_double x"
  shows "valid_double (fneg x)"
  using assms by (cases x) (simp_all add: valid_double_def)

lemma valid_fsub:
  assumes "valid_double x" and "valid_double y"
  shows "valid_double (fsub x y)"
  unfolding fsub_def using assms by (intro valid_fadd valid_fneg)

lemma valid_int_to_float:
  assumes "int_to_float i = Inr x"
  shows "valid_double x"
proof -
  have "0 \<le> \<bar>i\<bar>" and "0 < (1::int)" by simp_all
  from nearest_valid [OF this] assms show ?thesis
    by (auto simp: int_to_float_def split: option.splits)
qed

lemma int_to_float_total:
  assumes "\<bar>i\<bar> < 2 ^ 1024 - 2 ^ 970"
  shows "\<exists>x. int_to_float i = Inr x"
proof (cases "nearest \<bar>i\<bar> 1")
  case None
  have "0 \<le> \<bar>i\<bar>" and "0 < (1::int)" by simp_all
  from nearest_overflow [OF this None] assms show ?thesis by simp
next
  case (Some p)
  then show ?thesis by (cases p) (simp add: int_to_float_def)
qed

lemma py_round_total:
  assumes "valid_double x"
  shows "\<exists>y. py_round x ndigits = Inr y \<and> valid_double y"
proof (cases x)
  case (Finite s m e)
  from assms Finite have m: "0 \<le> m" "m \<le> 2 ^ 53 - 1" and e: "e \<le> 971"
    by (simp_all add: valid_double_def)
  let ?n = "m * 10 ^ ndigits * 2 ^ nat e" and ?d = "(2::int) ^ nat (- e)"
  let ?N = "round_half_even ?n ?d"
  have dpos: "0 < ?d" by simp
  have npos: "0 \<le> ?n" using m by simp
  have N0: "0 \<le> ?N"
    using dpos npos by (intro round_half_even_lower) simp_all
  have p10: "0 < (10::int) ^ ndigits" by simp
  show ?thesis
  proof (cases "323 < ndigits")
    case True
    with assms Finite show ?thesis by simp
  next
    case False
    have "?n * 1 \<le> ?n * ?d"
      using npos by (intro mult_left_mono) simp_all
    then have "?N \<le> ?n"
      using dpos by (intro round_half_even_upper) simp_all
    also have "?n = (m * 2 ^ nat e) * 10 ^ ndigits" by simp
    also have "\<dots> \<le> ((2 ^ 53 - 1) * 2 ^ 971) * 10 ^ ndigits"
    proof (intro mult_right_mono mult_mono)
      show "m \<le> 2 ^ 53 - 1" by (rule m)
      have "nat e \<le> 971" using e by simp
      then show "(2::int) ^ nat e \<le> 2 ^ 971"
        by (intro power_increasing) simp_all
    qed (use m in simp_all)
    also have "\<dots> < (2 ^ 1024 - 2 ^ 970) * 10 ^ ndigits"
      by (intro mult_strict_right_mono) simp_all
    finally have small: "?N < (2 ^ 1024 - 2 ^ 970) * 10 ^ ndigits" .
    show ?thesis
    proof (cases "nearest ?N (10 ^ ndigits)")
      case None
      from nearest_overflow [OF N0 p10 None] small show ?thesis by simp
    next
      case (Some p)
      obtain m' e' where p: "p = (m', e')" by (cases p)
      from nearest_valid [OF N0 p10, of m' e' s] Some p
      have "valid_double (Finite s m' e')" by simp
      with Finite False Some p show ?thesis by simp
    qed
  qed
qed (use assms in simp_all)

text \<open>When the price converts to a double and the quantity to an integer that a double can
  hold, \<^verbatim>\<open>simulate_execution\<close> returns an output.\<close>

lemma execution_result_total:
  assumes "valid_double price" and "int_to_float quantity = Inr qf"
  shows "\<exists>result. execution_result action price quantity = Inr result"
proof -
  let ?k = "if action = PStr ''BUY'' then float_lit 1001 1000 else float_lit 999 1000"
  let ?fill = "fmul price ?k"
  let ?fee = "fmul qf (float_lit 5 1000)"
  let ?gross = "fmul ?fill qf"
  have vq: "valid_double qf" using assms(2) by (rule valid_int_to_float)
  have vk: "valid_double ?k" by (simp add: valid_float_lit)
  have vfill: "valid_double ?fill" using assms(1) vk by (rule valid_fmul)
  have vfee: "valid_double ?fee" by (intro valid_fmul vq valid_float_lit) simp_all
  have vgross: "valid_double ?gross" using vfill vq by (rule valid_fmul)
  have fee: "int_mul_float quantity (float_lit 5 1000) = Inr ?fee"
    using assms(2) by (simp add: int_mul_float_def)
  have gross: "float_mul_int ?fill quantity = Inr ?gross"
    using assms(2) by (simp add: float_mul_int_def)
  have "\<bar>- 1 :: int\<bar> < 2 ^ 1024 - 2 ^ 970" by simp
  then obtain m1 where m1: "int_to_float (- 1) = Inr m1"
    using int_to_float_total by blast
  have vm1: "valid_double m1" using m1 by (rule valid_int_to_float)
  define cost where
    "cost = (if action = PStr ''BUY'' then fadd ?gross ?fee else fmul m1 (fsub ?gross ?fee))"
  have cost: "if action = PStr ''BUY'' then cost = fadd ?gross ?fee
              else int_mul_float (- 1) (fsub ?gross ?fee) = Inr cost"
    using m1 by (simp add: cost_def int_mul_float_def)
  have "valid_double (fadd ?gross ?fee)"
    using vgross vfee by (rule valid_fadd)
  moreover have "valid_double (fmul m1 (fsub ?gross ?fee))"
    by (intro valid_fmul valid_fsub vm1 vgross vfee)
  ultimately have vcost: "valid_double cost"
    unfolding cost_def by (cases "action = PStr ''BUY''") simp_all
  from py_round_total [OF vfill] obtain r1 where r1: "py_round ?fill 4 = Inr r1" by blast
  from py_round_total [OF vfee] obtain r2 where r2: "py_round ?fee 4 = Inr r2" by blast
  from py_round_total [OF vcost] obtain r3 where r3: "py_round cost 4 = Inr r3" by blast
  from fee gross cost r1 r2 r3 show ?thesis
    unfolding execution_result_Inr by blast
qed

lemma simulate_execution_returns:
  assumes "py_float B (get_default message ''price'' (PFloat (float_lit 100 1))) = Inr price"
    and "valid_double price"
    and "py_int B (get_default message ''quantity'' (PInt 0)) = Inr quantity"
    and "\<bar>quantity\<bar> < 2 ^ 1024 - 2 ^ 970"
  shows "\<exists>out. snd (simulate_execution B message) = Inr out"
proof -
  from int_to_float_total [OF assms(4)] obtain qf where "int_to_float quantity = Inr qf"
    by blast
  from execution_result_total [OF assms(2) this] obtain result where
    "execution_result (get_default message ''action'' (PStr ''HOLD'')) price quantity
       = Inr result"
    by blast
  with assms(1,3) show ?thesis
    unfolding simulate_execution_Inr by blast
qed

section \<open>The claims\<close>

text \<open>
  C1 (as amended).  For the empty record, \<^verbatim>\<open>simulate_execution\<close> returns exactly the five
  derived fields: \<^verbatim>\<open>fill_price\<close> 99.9, \<^verbatim>\<open>slippage_pct\<close> 0.001, \<^verbatim>\<open>execution_fee\<close> 0.0,
  \<^verbatim>\<open>execution_cost\<close> -0.0 (zero, since the quantity is 0) and \<^verbatim>\<open>status\<close> \<^verbatim>\<open>"noop"\<close>.  The
  defaults \<^verbatim>\<open>"UNKNOWN"\<close>, \<^verbatim>\<open>"HOLD"\<close> and 0 are logged and 100.0 is computed with, but none of
  them becomes a field of the output.
\<close>

theorem empty_message_output:
  "simulate_execution B Map.empty =
     ([Info_simulating (PStr ''HOLD'') 0 (PStr ''UNKNOWN''),
       Debug_result
         (result_dict (float_lit 999 10) (float_lit 0 1) (fneg (float_lit 0 1)) ''noop'')],
      Inr (result_dict (float_lit 999 10) (float_lit 0 1) (fneg (float_lit 0 1)) ''noop''))
   \<and> dom (result_dict (float_lit 999 10) (float_lit 0 1) (fneg (float_lit 0 1)) ''noop'')
       = derived_fields"
  by (simp add: simulate_execution_empty dom_result_dict)

text \<open>
  C1 as stated fails: the output for the empty record has no \<^verbatim>\<open>symbol\<close>, \<^verbatim>\<open>action\<close>,
  \<^verbatim>\<open>price\<close> or \<^verbatim>\<open>quantity\<close> field, and its \<^verbatim>\<open>execution_cost\<close> is -0.0, not -99.9.
\<close>

theorem empty_message_counterexample:
  "\<forall>B. \<exists>out. snd (simulate_execution B Map.empty) = Inr out
     \<and> out ''symbol'' = None \<and> out ''action'' = None
     \<and> out ''price'' = None \<and> out ''quantity'' = None
     \<and> out ''execution_cost'' = Some (PFloat (fneg (float_lit 0 1)))
     \<and> out ''execution_cost'' \<noteq> Some (PFloat (fneg (float_lit 999 10)))"
  using minus_zero_not_minus_999
  by (simp add: simulate_execution_empty result_dict_def)

text \<open>
  C2.  Whenever \<^verbatim>\<open>simulate_execution\<close> returns, the price converts to a float \<open>price\<close> and
  the output's \<^verbatim>\<open>fill_price\<close> is \<^verbatim>\<open>round(price * 1.001, 4)\<close> when the action is \<^verbatim>\<open>"BUY"\<close> and
  \<^verbatim>\<open>round(price * 0.999, 4)\<close> for every other action, the absent one included.
\<close>

theorem fill_price_formula:
  assumes "snd (simulate_execution B message) = Inr out"
  shows "\<exists>price r.
           py_float B (get_default message ''price'' (PFloat (float_lit 100 1))) = Inr price
         \<and> py_round (fmul price
                        (if get_default message ''action'' (PStr ''HOLD'') = PStr ''BUY''
                         then float_lit 1001 1000 else float_lit 999 1000)) 4 = Inr r
         \<and> out ''fill_price'' = Some (PFloat r)"
  using assms unfolding simulate_execution_Inr execution_result_Inr
  by (elim exE conjE) (simp add: map_add_def result_dict_def)

theorem fill_price_formula_witness:
  "\<forall>B. snd (simulate_execution B (aapl_order ''BUY'')) =
          Inr (aapl_order ''BUY'' ++
               result_dict (float_lit 1001 10) (float_lit 5 100) (float_lit 100105 100)
                 ''executed'')
      \<and> (\<exists>price r.
           py_float B (get_default (aapl_order ''BUY'') ''price'' (PFloat (float_lit 100 1)))
             = Inr price
         \<and> py_round (fmul price
                        (if get_default (aapl_order ''BUY'') ''action'' (PStr ''HOLD'')
                              = PStr ''BUY''
                         then float_lit 1001 1000 else float_lit 999 1000)) 4 = Inr r
         \<and> (aapl_order ''BUY'' ++
               result_dict (float_lit 1001 10) (float_lit 5 100) (float_lit 100105 100)
                 ''executed'') ''fill_price'' = Some (PFloat r))"
proof (intro allI)
  fix B
  have run: "snd (simulate_execution B (aapl_order ''BUY'')) =
          Inr (aapl_order ''BUY'' ++
               result_dict (float_lit 1001 10) (float_lit 5 100) (float_lit 100105 100)
                 ''executed'')"
    by (rule simulate_execution_buy)
  show "snd (simulate_execution B (aapl_order ''BUY'')) =
          Inr (aapl_order ''BUY'' ++
               result_dict (float_lit 1001 10) (float_lit 5 100) (float_lit 100105 100)
                 ''executed'')
      \<and> (\<exists>price r.
           py_float B (get_default (aapl_order ''BUY'') ''price'' (PFloat (float_lit 100 1)))
             = Inr price
         \<and> py_round (fmul price
                        (if get_default (aapl_order ''BUY'') ''action'' (PStr ''HOLD'')
                              = PStr ''BUY''
                         then float_lit 1001 1000 else float_lit 999 1000)) 4 = Inr r
         \<and> (aapl_order ''BUY'' ++
               result_dict (float_lit 1001 10) (float_lit 5 100) (float_lit 100105 100)
                 ''executed'') ''fill_price'' = Some (PFloat r))"
    by (rule conjI [OF run fill_price_formula [OF run]])
qed

text \<open>
  C3.  Whenever \<^verbatim>\<open>simulate_execution\<close> returns, with \<open>total_fee = quantity * 0.005\<close> and
  the fill price before rounding (\<open>price * 1.001\<close> for \<^verbatim>\<open>"BUY"\<close>, \<open>price * 0.999\<close> otherwise),
  the output's \<^verbatim>\<open>execution_cost\<close> is \<^verbatim>\<open>round(fill_price * quantity + total_fee, 4)\<close> for
  \<^verbatim>\<open>"BUY"\<close> and \<^verbatim>\<open>round(-1 * (fill_price * quantity - total_fee), 4)\<close> for every other action.
\<close>

theorem execution_cost_formula:
  assumes "snd (simulate_execution B message) = Inr out"
  shows "\<exists>price quantity total_fee gross execution_cost r.
           py_float B (get_default message ''price'' (PFloat (float_lit 100 1))) = Inr price
         \<and> py_int B (get_default message ''quantity'' (PInt 0)) = Inr quantity
         \<and> int_mul_float quantity (float_lit 5 1000) = Inr total_fee
         \<and> float_mul_int
              (fmul price (if get_default message ''action'' (PStr ''HOLD'') = PStr ''BUY''
                           then float_lit 1001 1000 else float_lit 999 1000))
              quantity = Inr gross
         \<and> (if get_default message ''action'' (PStr ''HOLD'') = PStr ''BUY''
             then execution_cost = fadd gross total_fee
             else int_mul_float (- 1) (fsub gross total_fee) = Inr execution_cost)
         \<and> py_round execution_cost 4 = Inr r
         \<and> out ''execution_cost'' = Some (PFloat r)"
proof -
  from assms obtain price quantity result where
    p: "py_float B (get_default message ''price'' (PFloat (float_lit 100 1))) = Inr price" and
    q: "py_int B (get_default message ''quantity'' (PInt 0)) = Inr quantity" and
    r: "execution_result (get_default message ''action'' (PStr ''HOLD'')) price quantity
          = Inr result" and
    out: "out = message ++ result"
    unfolding simulate_execution_Inr by blast
  from r obtain total_fee gross execution_cost r3 where
    "int_mul_float quantity (float_lit 5 1000) = Inr total_fee"
    "float_mul_int
       (fmul price (if get_default message ''action'' (PStr ''HOLD'') = PStr ''BUY''
                    then float_lit 1001 1000 else float_lit 999 1000))
       quantity = Inr gross"
    "if get_default message ''action'' (PStr ''HOLD'') = PStr ''BUY''
     then execution_cost = fadd gross total_fee
     else int_mul_float (- 1) (fsub gross total_fee) = Inr execution_cost"
    "py_round execution_cost 4 = Inr r3"
    "result ''execution_cost'' = Some (PFloat r3)"
    unfolding execution_result_Inr by (elim exE conjE) (simp add: result_dict_def)
  with p q out show ?thesis
    by (intro exI [of _ price] exI [of _ quantity] exI [of _ total_fee] exI [of _ gross]
          exI [of _ execution_cost] exI [of _ r3]) (simp add: map_add_def)
qed

theorem execution_cost_formula_witness:
  "\<forall>B. snd (simulate_execution B (aapl_order ''SELL'')) =
          Inr (aapl_order ''SELL'' ++
               result_dict (float_lit 999 10) (float_lit 5 100) (fneg (float_lit 99895 100))
                 ''executed'')
      \<and> (\<exists>price quantity total_fee gross execution_cost r.
           py_float B (get_default (aapl_order ''SELL'') ''price'' (PFloat (float_lit 100 1)))
             = Inr price
         \<and> py_int B (get_default (aapl_order ''SELL'') ''quantity'' (PInt 0)) = Inr quantity
         \<and> int_mul_float quantity (float_lit 5 1000) = Inr total_fee
         \<and> float_mul_int
              (fmul price (if get_default (aapl_order ''SELL'') ''action'' (PStr ''HOLD'')
                                = PStr ''BUY''
                           then float_lit 1001 1000 else float_lit 999 1000))
              quantity = Inr gross
         \<and> (if get_default (aapl_order ''SELL'') ''action'' (PStr ''HOLD'') = PStr ''BUY''
             then execution_cost = fadd gross total_fee
             else int_mul_float (- 1) (fsub gross total_fee) = Inr execution_cost)
         \<and> py_round execution_cost 4 = Inr r
         \<and> (aapl_order ''SELL'' ++
               result_dict (float_lit 999 10) (float_lit 5 100) (fneg (float_lit 99895 100))
                 ''executed'') ''execution_cost'' = Some (PFloat r))"
proof (intro allI)
  fix B
  have run: "snd (simulate_execution B (aapl_order ''SELL'')) =
          Inr (aapl_order ''SELL'' ++
               result_dict (float_lit 999 10) (float_lit 5 100) (fneg (float_lit 99895 100))
                 ''executed'')"
    by (rule simulate_execution_sell)
  show "snd (simulate_execution B (aapl_order ''SELL'')) =
          Inr (aapl_order ''SELL'' ++
               result_dict (float_lit 999 10) (float_lit 5 100) (fneg (float_lit 99895 100))
                 ''executed'')
      \<and> (\<exists>price quantity total_fee gross execution_cost r.
           py_float B (get_default (aapl_order ''SELL'') ''price'' (PFloat (float_lit 100 1)))
             = Inr price
         \<and> py_int B (get_default (aapl_order ''SELL'') ''quantity'' (PInt 0)) = Inr quantity
         \<and> int_mul_float quantity (float_lit 5 1000) = Inr total_fee
         \<and> float_mul_int
              (fmul price (if get_default (aapl_order ''SELL'') ''action'' (PStr ''HOLD'')
                                = PStr ''BUY''
                           then float_lit 1001 1000 else float_lit 999 1000))
              quantity = Inr gross
         \<and> (if get_default (aapl_order ''SELL'') ''action'' (PStr ''HOLD'') = PStr ''BUY''
             then execution_cost = fadd gross total_fee
             else int_mul_float (- 1) (fsub gross total_fee) = Inr execution_cost)
         \<and> py_round execution_cost 4 = Inr r
         \<and> (aapl_order ''SELL'' ++
               result_dict (float_lit 999 10) (float_lit 5 100) (fneg (float_lit 99895 100))
                 ''executed'') ''execution_cost'' = Some (PFloat r))"
    by (rule conjI [OF run execution_cost_formula [OF run]])
qed

text \<open>
  C4.  Whenever \<^verbatim>\<open>simulate_execution\<close> returns, the output's \<^verbatim>\<open>status\<close> is \<^verbatim>\<open>"executed"\<close>
  if and only if the action is \<^verbatim>\<open>"BUY"\<close> or \<^verbatim>\<open>"SELL"\<close>, and \<^verbatim>\<open>"noop"\<close> if and only if it is
  anything else (the default \<^verbatim>\<open>"HOLD"\<close> of an absent action included).
\<close>

theorem status_executed_iff:
  assumes "snd (simulate_execution B message) = Inr out"
  shows "(out ''status'' = Some (PStr ''executed'')
            \<longleftrightarrow> get_default message ''action'' (PStr ''HOLD'') \<in> {PStr ''BUY'', PStr ''SELL''})
       \<and> (out ''status'' = Some (PStr ''noop'')
            \<longleftrightarrow> get_default message ''action'' (PStr ''HOLD'') \<notin> {PStr ''BUY'', PStr ''SELL''})"
  using assms unfolding simulate_execution_Inr execution_result_Inr
  by (elim exE conjE) (simp add: map_add_def result_dict_def)

theorem status_executed_iff_witness:
  "\<forall>B. snd (simulate_execution B (aapl_order ''HOLD'')) =
          Inr (aapl_order ''HOLD'' ++
               result_dict (float_lit 999 10) (float_lit 5 100) (fneg (float_lit 99895 100))
                 ''noop'')
      \<and> (aapl_order ''HOLD'' ++
            result_dict (float_lit 999 10) (float_lit 5 100) (fneg (float_lit 99895 100))
              ''noop'') ''status'' = Some (PStr ''noop'')
      \<and> get_default (aapl_order ''HOLD'') ''action'' (PStr ''HOLD'')
           \<notin> {PStr ''BUY'', PStr ''SELL''}"
proof (intro allI)
  fix B
  let ?out = "aapl_order ''HOLD'' ++
    result_dict (float_lit 999 10) (float_lit 5 100) (fneg (float_lit 99895 100)) ''noop''"
  have run: "snd (simulate_execution B (aapl_order ''HOLD'')) = Inr ?out"
    by (rule simulate_execution_hold)
  have action: "get_default (aapl_order ''HOLD'') ''action'' (PStr ''HOLD'')
                  \<notin> {PStr ''BUY'', PStr ''SELL''}"
    by (simp add: aapl_order_def get_default_def)
  from status_executed_iff [OF run] have
    "?out ''status'' = Some (PStr ''noop'')
       \<longleftrightarrow> get_default (aapl_order ''HOLD'') ''action'' (PStr ''HOLD'')
             \<notin> {PStr ''BUY'', PStr ''SELL''}"
    by (rule conjunct2)
  from this action have "?out ''status'' = Some (PStr ''noop'')"
    by (rule iffD2)
  with run action show "snd (simulate_execution B (aapl_order ''HOLD'')) = Inr ?out
      \<and> ?out ''status'' = Some (PStr ''noop'')
      \<and> get_default (aapl_order ''HOLD'') ''action'' (PStr ''HOLD'')
           \<notin> {PStr ''BUY'', PStr ''SELL''}"
    by (intro conjI)
qed

text \<open>
  C5.  Whenever \<^verbatim>\<open>simulate_execution\<close> returns, the quantity converts to an integer
  \<open>quantity\<close> (0 when the field is absent) and the output's \<^verbatim>\<open>execution_fee\<close> is
  \<^verbatim>\<open>round(quantity * 0.005, 4)\<close>.
\<close>

theorem execution_fee_formula:
  assumes "snd (simulate_execution B message) = Inr out"
  shows "\<exists>quantity total_fee r.
           py_int B (get_default message ''quantity'' (PInt 0)) = Inr quantity
         \<and> int_mul_float quantity (float_lit 5 1000) = Inr total_fee
         \<and> py_round total_fee 4 = Inr r
         \<and> out ''execution_fee'' = Some (PFloat r)"
  using assms unfolding simulate_execution_Inr execution_result_Inr
  by (elim exE conjE) (simp add: map_add_def result_dict_def)

theorem execution_fee_formula_witness:
  "\<forall>B. snd (simulate_execution B (aapl_order ''BUY'')) =
          Inr (aapl_order ''BUY'' ++
               result_dict (float_lit 1001 10) (float_lit 5 100) (float_lit 100105 100)
                 ''executed'')
      \<and> (\<exists>quantity total_fee r.
           py_int B (get_default (aapl_order ''BUY'') ''quantity'' (PInt 0)) = Inr quantity
         \<and> int_mul_float quantity (float_lit 5 1000) = Inr total_fee
         \<and> py_round total_fee 4 = Inr r
         \<and> (aapl_order ''BUY'' ++
               result_dict (float_lit 1001 10) (float_lit 5 100) (float_lit 100105 100)
                 ''executed'') ''execution_fee'' = Some (PFloat r))"
proof (intro allI)
  fix B
  have run: "snd (simulate_execution B (aapl_order ''BUY'')) =
          Inr (aapl_order ''BUY'' ++
               result_dict (float_lit 1001 10) (float_lit 5 100) (float_lit 100105 100)
                 ''executed'')"
    by (rule simulate_execution_buy)
  show "snd (simulate_execution B (aapl_order ''BUY'')) =
          Inr (aapl_order ''BUY'' ++
               result_dict (float_lit 1001 10) (float_lit 5 100) (float_lit 100105 100)
                 ''executed'')
      \<and> (\<exists>quantity total_fee r.
           py_int B (get_default (aapl_order ''BUY'') ''quantity'' (PInt 0)) = Inr quantity
         \<and> int_mul_float quantity (float_lit 5 1000) = Inr total_fee
         \<and> py_round total_fee 4 = Inr r
         \<and> (aapl_order ''BUY'' ++
               result_dict (float_lit 1001 10) (float_lit 5 100) (float_lit 100105 100)
                 ''executed'') ''execution_fee'' = Some (PFloat r))"
    by (rule conjI [OF run execution_fee_formula [OF run]])
qed

text \<open>
  C6 (as amended).  For every record that the schema check rejects, \<^verbatim>\<open>validate_input_message\<close>
  logs the record at error level and raises \<^verbatim>\<open>ValueError("Invalid message format")\<close>, an
  exception that holds nothing but this text.  It returns no record, and its only effects are
  the two log calls: nothing of \<^verbatim>\<open>simulate_execution\<close> runs.
\<close>

theorem invalid_message_rejected:
  assumes "\<not> validate_message_schema message"
  shows "validate_input_message validate_message_schema message =
           ([Debug_validating, Error_invalid_schema message],
            Inl (ValueError (Some ''Invalid message format'')))"
  using assms by (simp add: validate_input_message_def)

theorem invalid_message_rejected_witness:
  "\<not> spec_message_schema ((aapl_order ''BUY'')(''price'' \<mapsto> PStr ''abc''))
   \<and> validate_input_message spec_message_schema
        ((aapl_order ''BUY'')(''price'' \<mapsto> PStr ''abc'')) =
        ([Debug_validating,
          Error_invalid_schema ((aapl_order ''BUY'')(''price'' \<mapsto> PStr ''abc''))],
         Inl (ValueError (Some ''Invalid message format'')))"
proof -
  have rejected: "\<not> spec_message_schema ((aapl_order ''BUY'')(''price'' \<mapsto> PStr ''abc''))"
    by (simp add: spec_message_schema_def aapl_order_def)
  show ?thesis
    using rejected
      invalid_message_rejected
        [of spec_message_schema "(aapl_order ''BUY'')(''price'' \<mapsto> PStr ''abc'')", OF rejected]
    by (rule conjI)
qed

text \<open>
  C6 as stated fails: the exception does not carry the record.  Two different records that
  the schema check rejects, \<^verbatim>\<open>{}\<close> and the order whose price is the text \<^verbatim>\<open>"abc"\<close>, raise one
  and the same exception.
\<close>

theorem invalid_message_counterexample:
  "Map.empty \<noteq> (aapl_order ''BUY'')(''price'' \<mapsto> PStr ''abc'')
   \<and> \<not> spec_message_schema Map.empty
   \<and> \<not> spec_message_schema ((aapl_order ''BUY'')(''price'' \<mapsto> PStr ''abc''))
   \<and> snd (validate_input_message spec_message_schema Map.empty) =
        Inl (ValueError (Some ''Invalid message format''))
   \<and> snd (validate_input_message spec_message_schema
             ((aapl_order ''BUY'')(''price'' \<mapsto> PStr ''abc''))) =
        Inl (ValueError (Some ''Invalid message format''))"
proof -
  have "Map.empty \<noteq> (aapl_order ''BUY'')(''price'' \<mapsto> PStr ''abc'')"
  proof
    assume "Map.empty = (aapl_order ''BUY'')(''price'' \<mapsto> PStr ''abc'')"
    then have "(Map.empty :: message) ''price''
                 = ((aapl_order ''BUY'')(''price'' \<mapsto> PStr ''abc'')) ''price''"
      by (rule arg_cong)
    then show False by simp
  qed
  then show ?thesis
    by (simp add: validate_input_message_def spec_message_schema_def aapl_order_def)
qed

text \<open>
  C7.  Whenever \<^verbatim>\<open>simulate_execution\<close> returns, what it returns is a new dictionary, not
  the input's: the input merged with the dictionary \<^verbatim>\<open>result\<close> that the code built, whose
  keys are exactly the five derived fields.  The output's keys are the input's and those five;
  every other field has the input's value; each of the five has the value of \<^verbatim>\<open>result\<close>,
  for every input, also one that has a field of that name.  The input dictionary, and every
  other dictionary the caller holds, is after the call what it was before.
\<close>

theorem output_merges_derived_fields:
  assumes "message < length store"
      and "simulate_execution_store B store message = (store', logs, Inr out)"
  shows "\<exists>price quantity result.
           py_float B (get_default (store ! message) ''price'' (PFloat (float_lit 100 1)))
             = Inr price
         \<and> py_int B (get_default (store ! message) ''quantity'' (PInt 0)) = Inr quantity
         \<and> execution_result (get_default (store ! message) ''action'' (PStr ''HOLD''))
             price quantity = Inr result
         \<and> dom result = derived_fields
         \<and> snd (simulate_execution B (store ! message)) = Inr (store' ! out)
         \<and> store' ! out = store ! message ++ result
         \<and> dom (store' ! out) = dom (store ! message) \<union> derived_fields
         \<and> (\<forall>k. k \<notin> derived_fields \<longrightarrow> (store' ! out) k = (store ! message) k)
         \<and> (\<forall>k \<in> derived_fields. (store' ! out) k = result k \<and> result k \<noteq> None)
         \<and> length store \<le> out \<and> out < length store' \<and> out \<noteq> message
         \<and> (\<forall>r < length store. store' ! r = store ! r)"
proof -
  from assms(2) obtain price quantity result where
    p: "py_float B (get_default (store ! message) ''price'' (PFloat (float_lit 100 1)))
          = Inr price" and
    q: "py_int B (get_default (store ! message) ''quantity'' (PInt 0)) = Inr quantity" and
    r: "execution_result (get_default (store ! message) ''action'' (PStr ''HOLD''))
          price quantity = Inr result" and
    s: "store' = store @ [result, store ! message ++ result]" and
    o: "out = length store + 1"
    unfolding simulate_execution_store_Inr by blast
  from r have d: "dom result = derived_fields"
    unfolding execution_result_Inr by (elim exE conjE) (simp add: dom_result_dict)
  have out: "store' ! out = store ! message ++ result"
    unfolding s o by (simp add: nth_append)
  have pure: "snd (simulate_execution B (store ! message)) = Inr (store' ! out)"
    unfolding simulate_execution_Inr out using p q r by blast
  have keys: "dom (store' ! out) = dom (store ! message) \<union> derived_fields"
    unfolding out using d by auto
  have rest: "\<forall>k. k \<notin> derived_fields \<longrightarrow> (store' ! out) k = (store ! message) k"
    unfolding out using d by (auto simp: map_add_def domIff split: option.splits)
  have wins: "\<forall>k \<in> derived_fields. (store' ! out) k = result k \<and> result k \<noteq> None"
    unfolding out using d by (auto simp: map_add_def split: option.splits)
  have new: "length store \<le> out" "out < length store'" "out \<noteq> message"
    using assms(1) unfolding s o by simp_all
  have frame: "\<forall>r < length store. store' ! r = store ! r"
    unfolding s by (simp add: nth_append)
  from p q r d pure out keys rest wins new frame show ?thesis
    by (intro exI conjI)
qed

theorem output_merges_derived_fields_witness:
  "\<forall>B. simulate_execution_store B
           [(aapl_order ''BUY'')(''status'' \<mapsto> PStr ''pending'')] 0 =
          ([(aapl_order ''BUY'')(''status'' \<mapsto> PStr ''pending''),
            result_dict (float_lit 1001 10) (float_lit 5 100) (float_lit 100105 100)
              ''executed'',
            (aapl_order ''BUY'')(''status'' \<mapsto> PStr ''pending'') ++
            result_dict (float_lit 1001 10) (float_lit 5 100) (float_lit 100105 100)
              ''executed''],
           [Info_simulating (PStr ''BUY'') 10 (PStr ''AAPL''),
            Debug_result
              (result_dict (float_lit 1001 10) (float_lit 5 100) (float_lit 100105 100)
                 ''executed'')],
           Inr 2)
      \<and> snd (simulate_execution B ((aapl_order ''BUY'')(''status'' \<mapsto> PStr ''pending''))) =
          Inr ((aapl_order ''BUY'')(''status'' \<mapsto> PStr ''pending'') ++
               result_dict (float_lit 1001 10) (float_lit 5 100) (float_lit 100105 100)
                 ''executed'')
      \<and> dom ((aapl_order ''BUY'')(''status'' \<mapsto> PStr ''pending'') ++
               result_dict (float_lit 1001 10) (float_lit 5 100) (float_lit 100105 100)
                 ''executed'')
          = dom ((aapl_order ''BUY'')(''status'' \<mapsto> PStr ''pending'')) \<union> derived_fields
      \<and> ((aapl_order ''BUY'')(''status'' \<mapsto> PStr ''pending'')) ''status''
          = Some (PStr ''pending'')
      \<and> ((aapl_order ''BUY'')(''status'' \<mapsto> PStr ''pending'') ++
            result_dict (float_lit 1001 10) (float_lit 5 100) (float_lit 100105 100)
              ''executed'') ''status'' = Some (PStr ''executed'')
      \<and> ((aapl_order ''BUY'')(''status'' \<mapsto> PStr ''pending'') ++
            result_dict (float_lit 1001 10) (float_lit 5 100) (float_lit 100105 100)
              ''executed'') ''symbol'' = Some (PStr ''AAPL'')"
proof (intro allI)
  fix B
  let ?m = "(aapl_order ''BUY'')(''status'' \<mapsto> PStr ''pending'')"
  let ?result =
    "result_dict (float_lit 1001 10) (float_lit 5 100) (float_lit 100105 100) ''executed''"
  let ?logs = "[Info_simulating (PStr ''BUY'') 10 (PStr ''AAPL''), Debug_result ?result]"
  have valid: "(0::nat) < length [?m]"
    by simp
  have run: "simulate_execution_store B [?m] 0 = ([?m, ?result, ?m ++ ?result], ?logs, Inr 2)"
    by (rule simulate_execution_store_pending)
  note inst = output_merges_derived_fields [OF valid run]
  from inst have "snd (simulate_execution B ([?m] ! 0)) = Inr ([?m, ?result, ?m ++ ?result] ! 2)"
    by (elim exE conjE)
  then have pure: "snd (simulate_execution B ?m) = Inr (?m ++ ?result)"
    by simp
  from inst have "dom ([?m, ?result, ?m ++ ?result] ! 2) = dom ([?m] ! 0) \<union> derived_fields"
    by (elim exE conjE)
  then have keys: "dom (?m ++ ?result) = dom ?m \<union> derived_fields"
    by simp
  have fields: "?m ''status'' = Some (PStr ''pending'')"
    "(?m ++ ?result) ''status'' = Some (PStr ''executed'')"
    "(?m ++ ?result) ''symbol'' = Some (PStr ''AAPL'')"
    by (simp_all add: aapl_order_def result_dict_def)
  from run pure keys fields
  show "simulate_execution_store B [?m] 0 = ([?m, ?result, ?m ++ ?result], ?logs, Inr 2)
      \<and> snd (simulate_execution B ?m) = Inr (?m ++ ?result)
      \<and> dom (?m ++ ?result) = dom ?m \<union> derived_fields
      \<and> ?m ''status'' = Some (PStr ''pending'')
      \<and> (?m ++ ?result) ''status'' = Some (PStr ''executed'')
      \<and> (?m ++ ?result) ''symbol'' = Some (PStr ''AAPL'')"
    by (intro conjI)
qed

text \<open>
  C8.  For every record that the schema check accepts, \<^verbatim>\<open>validate_input_message\<close> returns
  the record itself, and validating what it returned returns the same record again.
\<close>

theorem validation_idempotent:
  assumes "validate_message_schema message"
  shows "snd (validate_input_message validate_message_schema message) = Inr message
       \<and> bind_err (snd (validate_input_message validate_message_schema message))
           (\<lambda>validated. snd (validate_input_message validate_message_schema validated))
         = Inr message"
  using assms by (simp add: validate_input_message_def)

theorem validation_idempotent_witness:
  "spec_message_schema (aapl_order ''BUY'')
   \<and> snd (validate_input_message spec_message_schema (aapl_order ''BUY''))
       = Inr (aapl_order ''BUY'')
   \<and> bind_err (snd (validate_input_message spec_message_schema (aapl_order ''BUY'')))
       (\<lambda>validated. snd (validate_input_message spec_message_schema validated))
     = Inr (aapl_order ''BUY'')"
proof -
  have accepted: "spec_message_schema (aapl_order ''BUY'')"
    by (simp add: spec_message_schema_def aapl_order_def)
  show ?thesis
    using accepted
      validation_idempotent [of spec_message_schema "aapl_order ''BUY''", OF accepted]
    by (rule conjI)
qed

text \<open>
  C9 (as amended).  When the price field is absent, \<^verbatim>\<open>simulate_execution\<close> computes with the
  price 100.0: what it returns is what the quantity, the action and the price 100.0 give, and
  it does return an output whenever the quantity converts to an integer that a double can hold
  (one below \<open>2^1024 - 2^970\<close> in magnitude).  When the price field is present and \<^verbatim>\<open>float\<close> cannot convert it, \<^verbatim>\<open>simulate_execution\<close>
  raises the exception of that conversion, before it logs or computes anything.
\<close>

theorem price_absent_or_unconvertible:
  "(message ''price'' = None \<longrightarrow>
      snd (simulate_execution B message) =
        bind_err (py_int B (get_default message ''quantity'' (PInt 0))) (\<lambda>quantity.
        bind_err (execution_result (get_default message ''action'' (PStr ''HOLD''))
                    (float_lit 100 1) quantity) (\<lambda>result.
        Inr (message ++ result))))
   \<and> (\<forall>v err. message ''price'' = Some v \<and> py_float B v = Inl err \<longrightarrow>
         simulate_execution B message = ([], Inl err))
   \<and> (\<forall>quantity. message ''price'' = None
         \<and> py_int B (get_default message ''quantity'' (PInt 0)) = Inr quantity
         \<and> \<bar>quantity\<bar> < 2 ^ 1024 - 2 ^ 970 \<longrightarrow>
         (\<exists>out. snd (simulate_execution B message) = Inr out))"
proof (intro conjI allI impI)
  assume "message ''price'' = None"
  then show "snd (simulate_execution B message) =
        bind_err (py_int B (get_default message ''quantity'' (PInt 0))) (\<lambda>quantity.
        bind_err (execution_result (get_default message ''action'' (PStr ''HOLD''))
                    (float_lit 100 1) quantity) (\<lambda>result.
        Inr (message ++ result)))"
    by (auto simp: simulate_execution_def get_default_def Let_def split: sum.splits)
next
  fix v err
  assume "message ''price'' = Some v \<and> py_float B v = Inl err"
  then show "simulate_execution B message = ([], Inl err)"
    by (simp add: simulate_execution_def get_default_def)
next
  fix quantity
  assume a: "message ''price'' = None
         \<and> py_int B (get_default message ''quantity'' (PInt 0)) = Inr quantity
         \<and> \<bar>quantity\<bar> < 2 ^ 1024 - 2 ^ 970"
  then have p: "py_float B (get_default message ''price'' (PFloat (float_lit 100 1)))
               = Inr (float_lit 100 1)"
    by (simp add: get_default_def)
  have v: "valid_double (float_lit 100 1)"
    by (rule valid_float_lit) simp_all
  from a have q: "py_int B (get_default message ''quantity'' (PInt 0)) = Inr quantity"
    by (elim conjE)
  from a have r: "\<bar>quantity\<bar> < 2 ^ 1024 - 2 ^ 970"
    by (elim conjE)
  show "\<exists>out. snd (simulate_execution B message) = Inr out"
    by (rule simulate_execution_returns [OF p v q r])
qed

theorem price_absent_or_unconvertible_witness:
  "\<forall>B. ((aapl_order ''BUY'')(''price'' := None)) ''price'' = None
      \<and> py_int B (get_default ((aapl_order ''BUY'')(''price'' := None)) ''quantity'' (PInt 0))
          = Inr 10
      \<and> \<bar>10 :: int\<bar> < 2 ^ 1024 - 2 ^ 970
      \<and> snd (simulate_execution B ((aapl_order ''BUY'')(''price'' := None))) =
          Inr ((aapl_order ''BUY'')(''price'' := None) ++
               result_dict (float_lit 1001 10) (float_lit 5 100) (float_lit 100105 100)
                 ''executed'')
      \<and> ((aapl_order ''BUY'')(''price'' \<mapsto> PList [])) ''price'' = Some (PList [])
      \<and> py_float B (PList []) = Inl TypeError
      \<and> simulate_execution B ((aapl_order ''BUY'')(''price'' \<mapsto> PList []))
          = ([], Inl TypeError)"
proof (intro allI)
  fix B
  let ?absent = "(aapl_order ''BUY'')(''price'' := None)"
  let ?listed = "(aapl_order ''BUY'')(''price'' \<mapsto> PList [])"
  have absent: "?absent ''price'' = None" by simp
  have quantity: "py_int B (get_default ?absent ''quantity'' (PInt 0)) = Inr 10"
    by (simp add: get_default_def aapl_order_def)
  have range: "\<bar>10 :: int\<bar> < 2 ^ 1024 - 2 ^ 970" by simp
  have listed: "?listed ''price'' = Some (PList [])" by simp
  have conv: "py_float B (PList []) = Inl TypeError" by simp
  from price_absent_or_unconvertible [of ?absent B]
  have "?absent ''price'' = None \<longrightarrow>
        snd (simulate_execution B ?absent) =
        bind_err (py_int B (get_default ?absent ''quantity'' (PInt 0))) (\<lambda>quantity.
        bind_err (execution_result (get_default ?absent ''action'' (PStr ''HOLD''))
                    (float_lit 100 1) quantity) (\<lambda>result.
        Inr (?absent ++ result)))"
    by (rule conjunct1)
  from this absent
  have "snd (simulate_execution B ?absent) =
        bind_err (py_int B (get_default ?absent ''quantity'' (PInt 0))) (\<lambda>quantity.
        bind_err (execution_result (get_default ?absent ''action'' (PStr ''HOLD''))
                    (float_lit 100 1) quantity) (\<lambda>result.
        Inr (?absent ++ result)))"
    by (rule mp)
  then have run: "snd (simulate_execution B ?absent) =
          Inr (?absent ++
               result_dict (float_lit 1001 10) (float_lit 5 100) (float_lit 100105 100)
                 ''executed'')"
    by (simp add: get_default_def aapl_order_def execution_result_buy)
  from price_absent_or_unconvertible [of ?listed B]
  have "\<forall>v err. ?listed ''price'' = Some v \<and> py_float B v = Inl err \<longrightarrow>
         simulate_execution B ?listed = ([], Inl err)"
    by (elim conjE)
  with listed conv have raised: "simulate_execution B ?listed = ([], Inl TypeError)"
    by blast
  from absent quantity range run listed conv raised
  show "?absent ''price'' = None
      \<and> py_int B (get_default ?absent ''quantity'' (PInt 0)) = Inr 10
      \<and> \<bar>10 :: int\<bar> < 2 ^ 1024 - 2 ^ 970
      \<and> snd (simulate_execution B ?absent) =
          Inr (?absent ++
               result_dict (float_lit 1001 10) (float_lit 5 100) (float_lit 100105 100)
                 ''executed'')
      \<and> ?listed ''price'' = Some (PList [])
      \<and> py_float B (PList []) = Inl TypeError
      \<and> simulate_execution B ?listed = ([], Inl TypeError)"
    by (intro conjI)
qed

text \<open>
  C9 as stated fails: with the price \<^verbatim>\<open>None\<close>, which \<^verbatim>\<open>float\<close> cannot convert, the order of
  scenario 1 makes \<^verbatim>\<open>simulate_execution\<close> raise \<^verbatim>\<open>TypeError\<close>; the default 100.0 is not used.
\<close>

theorem unconvertible_price_counterexample:
  "\<forall>B. ((aapl_order ''BUY'')(''price'' \<mapsto> PNone)) ''price'' = Some PNone
      \<and> py_float B PNone = Inl TypeError
      \<and> simulate_execution B ((aapl_order ''BUY'')(''price'' \<mapsto> PNone)) = ([], Inl TypeError)"
  by (simp add: simulate_execution_def get_default_def)

text \<open>\<^verbatim>\<open>int(x)\<close> on a finite double is the integer part of the number the double stands for.\<close>

lemma float_to_int_trunc:
  assumes "0 \<le> m"
  shows "float_to_int (Finite s m e) = Inr (trunc_toward_zero (double_value s m e))"
proof -
  have mag: "\<lfloor>real_of_int m * 2 powr real_of_int e\<rfloor> = (m * 2 ^ nat e) div 2 ^ nat (- e)"
  proof (cases "0 \<le> e")
    case True
    then have "2 powr real_of_int e = real_of_int (2 ^ nat e)"
      by (simp add: powr_realpow [symmetric])
    then have "real_of_int m * 2 powr real_of_int e = real_of_int (m * 2 ^ nat e)"
      by simp
    then show ?thesis using True by (simp del: of_int_mult of_int_power)
  next
    case False
    then have "2 powr real_of_int e = 1 / real_of_int (2 ^ nat (- e))"
      by (simp add: powr_realpow [symmetric] powr_minus_divide [symmetric])
    then have "real_of_int m * 2 powr real_of_int e
                 = real_of_int m / real_of_int (2 ^ nat (- e))"
      by simp
    then show ?thesis using False
      by (simp add: floor_divide_of_int_eq del: of_int_power)
  qed
  have pos: "0 < (2::real) powr real_of_int e" by simp
  show ?thesis
  proof (cases "s \<and> 0 < m")
    case True
    then have "real_of_int (signed s m) * 2 powr real_of_int e < 0"
      using pos by (simp add: signed_def mult_neg_pos)
    moreover have "- (real_of_int (signed s m) * 2 powr real_of_int e)
                     = real_of_int m * 2 powr real_of_int e"
      using True by (simp add: signed_def)
    ultimately show ?thesis using True mag
      by (simp add: trunc_toward_zero_def double_value_def) (simp add: signed_def)
  next
    case False
    then have "signed s m = m" using assms by (auto simp: signed_def)
    moreover have "0 \<le> real_of_int m * 2 powr real_of_int e" using assms by simp
    moreover have "signed s (m * 2 ^ nat e div 2 ^ nat (- e)) = m * 2 ^ nat e div 2 ^ nat (- e)"
      using False assms by (auto simp: signed_def)
    ultimately show ?thesis using mag
      by (simp add: trunc_toward_zero_def double_value_def not_less)
  qed
qed

lemma eval_ten_point_nine:
  "float_lit 109 10 = Finite False 6136154492292301 (- 49)"
  "float_to_int (Finite False 6136154492292301 (- 49)) = Inr 10"
  "float_to_int (Finite True 6136154492292301 (- 49)) = Inr (- 10)"
  by code_simp+

text \<open>A quantity that is an infinity or NaN has no integer part: \<^verbatim>\<open>int\<close> raises.\<close>

lemma non_finite_quantity_raises:
  assumes "py_float B (get_default message ''price'' (PFloat (float_lit 100 1))) = Inr price"
  shows "message ''quantity'' = Some (PFloat NaN) \<Longrightarrow>
           simulate_execution B message = ([], Inl (ValueError None))"
    and "message ''quantity'' = Some (PFloat (Infinity s)) \<Longrightarrow>
           simulate_execution B message = ([], Inl OverflowError)"
  using assms by (simp_all add: simulate_execution_def get_default_def)

text \<open>
  C10.  When the quantity field is a finite float, \<^verbatim>\<open>simulate_execution\<close> computes with its
  integer part (the number truncated toward zero): what it returns is what the price, the
  action and that integer give, and the output's \<^verbatim>\<open>quantity\<close> is still the float of the input.
  (The mantissa of a double is not negative.)
\<close>

theorem float_quantity_truncated:
  assumes "message ''quantity'' = Some (PFloat (Finite s m e))" and "0 \<le> m"
  shows "py_int B (get_default message ''quantity'' (PInt 0))
           = Inr (trunc_toward_zero (double_value s m e))
       \<and> snd (simulate_execution B message) =
           bind_err (py_float B (get_default message ''price'' (PFloat (float_lit 100 1))))
             (\<lambda>price.
           bind_err (execution_result (get_default message ''action'' (PStr ''HOLD'')) price
                       (trunc_toward_zero (double_value s m e))) (\<lambda>result.
           Inr (message ++ result)))
       \<and> (\<forall>out. snd (simulate_execution B message) = Inr out \<longrightarrow>
             out ''quantity'' = Some (PFloat (Finite s m e)))"
proof (intro conjI allI impI)
  show q: "py_int B (get_default message ''quantity'' (PInt 0))
             = Inr (trunc_toward_zero (double_value s m e))"
    using assms by (simp add: get_default_def float_to_int_trunc del: float_to_int.simps)
  show "snd (simulate_execution B message) =
           bind_err (py_float B (get_default message ''price'' (PFloat (float_lit 100 1))))
             (\<lambda>price.
           bind_err (execution_result (get_default message ''action'' (PStr ''HOLD'')) price
                       (trunc_toward_zero (double_value s m e))) (\<lambda>result.
           Inr (message ++ result)))"
    using q by (simp add: simulate_execution_def Let_def split: sum.splits)
next
  fix out
  assume "snd (simulate_execution B message) = Inr out"
  then obtain price quantity result where
    r: "execution_result (get_default message ''action'' (PStr ''HOLD'')) price quantity
          = Inr result" and
    out: "out = message ++ result"
    unfolding simulate_execution_Inr by blast
  from r have "dom result = derived_fields"
    unfolding execution_result_Inr by (elim exE conjE) (simp add: dom_result_dict)
  moreover have "''quantity'' \<notin> derived_fields"
    by (simp add: derived_fields_def)
  ultimately have "''quantity'' \<notin> dom result"
    by simp
  then have "result ''quantity'' = None"
    by (simp add: domIff)
  with out assms(1) show "out ''quantity'' = Some (PFloat (Finite s m e))"
    by (simp add: map_add_def)
qed

theorem float_quantity_truncated_witness:
  "\<forall>B. ((aapl_order ''BUY'')(''quantity'' \<mapsto> PFloat (Finite False 6136154492292301 (- 49))))
           ''quantity'' = Some (PFloat (Finite False 6136154492292301 (- 49)))
      \<and> (0::int) \<le> 6136154492292301
      \<and> float_lit 109 10 = Finite False 6136154492292301 (- 49)
      \<and> trunc_toward_zero (double_value False 6136154492292301 (- 49)) = 10
      \<and> snd (simulate_execution B
               ((aapl_order ''BUY'')
                  (''quantity'' \<mapsto> PFloat (Finite False 6136154492292301 (- 49))))) =
          Inr ((aapl_order ''BUY'')
                  (''quantity'' \<mapsto> PFloat (Finite False 6136154492292301 (- 49))) ++
               result_dict (float_lit 1001 10) (float_lit 5 100) (float_lit 100105 100)
                 ''executed'')
      \<and> ((aapl_order ''BUY'')
            (''quantity'' \<mapsto> PFloat (Finite False 6136154492292301 (- 49))) ++
          result_dict (float_lit 1001 10) (float_lit 5 100) (float_lit 100105 100)
            ''executed'') ''quantity''
          = Some (PFloat (Finite False 6136154492292301 (- 49)))"
proof (intro allI)
  fix B
  let ?m = "(aapl_order ''BUY'')
              (''quantity'' \<mapsto> PFloat (Finite False 6136154492292301 (- 49)))"
  let ?out = "?m ++
    result_dict (float_lit 1001 10) (float_lit 5 100) (float_lit 100105 100) ''executed''"
  have field: "?m ''quantity'' = Some (PFloat (Finite False 6136154492292301 (- 49)))"
    by simp
  have mantissa: "(0::int) \<le> 6136154492292301" by simp
  have lit: "float_lit 109 10 = Finite False 6136154492292301 (- 49)"
    by (rule eval_ten_point_nine)
  note inst = float_quantity_truncated [of ?m False 6136154492292301 "- 49" B, OF field mantissa]
  from inst have "py_int B (get_default ?m ''quantity'' (PInt 0))
           = Inr (trunc_toward_zero (double_value False 6136154492292301 (- 49)))"
    by (rule conjunct1)
  then have "Inr (trunc_toward_zero (double_value False 6136154492292301 (- 49)))
               = float_to_int (Finite False 6136154492292301 (- 49))"
    by (simp add: get_default_def del: float_to_int.simps)
  then have ten: "trunc_toward_zero (double_value False 6136154492292301 (- 49)) = 10"
    unfolding eval_ten_point_nine by simp
  from inst have "snd (simulate_execution B ?m) =
           bind_err (py_float B (get_default ?m ''price'' (PFloat (float_lit 100 1))))
             (\<lambda>price.
           bind_err (execution_result (get_default ?m ''action'' (PStr ''HOLD'')) price
                       (trunc_toward_zero (double_value False 6136154492292301 (- 49))))
             (\<lambda>result. Inr (?m ++ result)))"
    by (elim conjE)
  then have run: "snd (simulate_execution B ?m) = Inr ?out"
    unfolding ten by (simp add: get_default_def aapl_order_def execution_result_buy)
  from inst have "\<forall>out. snd (simulate_execution B ?m) = Inr out \<longrightarrow>
             out ''quantity'' = Some (PFloat (Finite False 6136154492292301 (- 49)))"
    by (elim conjE)
  with run have kept: "?out ''quantity'' = Some (PFloat (Finite False 6136154492292301 (- 49)))"
    by blast
  from field mantissa lit ten run kept
  show "?m ''quantity'' = Some (PFloat (Finite False 6136154492292301 (- 49)))
      \<and> (0::int) \<le> 6136154492292301
      \<and> float_lit 109 10 = Finite False 6136154492292301 (- 49)
      \<and> trunc_toward_zero (double_value False 6136154492292301 (- 49)) = 10
      \<and> snd (simulate_execution B ?m) = Inr ?out
      \<and> ?out ''quantity'' = Some (PFloat (Finite False 6136154492292301 (- 49)))"
    by (intro conjI)
qed

end
